theory Spec2Isabelle
  imports Complex_Main "HOL-Library.AList" "HOL-Library.Sublist" "HOL-Library.Word"
begin

section \<open>Errors\<close>

text \<open>
  A JavaScript exception is a value. \<open>Error m\<close> is \<^verbatim>\<open>new Error(m)\<close>, \<open>TypeError m\<close> is the
  engine's own TypeError, \<open>DOMException n\<close> is a DOM exception of name \<open>n\<close>. A function
  that may throw returns \<open>error + 'a\<close>, with \<open>Inl\<close> for the throw; an \<^verbatim>\<open>async\<close> function
  that throws returns a rejected promise, which is \<open>Inl\<close> as well.
\<close>

datatype error = Error string | TypeError string | DOMException string

section \<open>Grading history in localStorage (lib/storage)\<close>

text \<open>
  \<^verbatim>\<open>interface GradingRecord\<close>. The field \<^verbatim>\<open>id\<close> is \<open>id_field\<close> here, since \<open>id\<close> is
  the identity function of HOL. JavaScript numbers are real numbers in this model.
\<close>

record GradingRecord =
  id_field :: string
  imageUrl :: string
  predictions :: "real list"
  topClass :: real
  confidence :: real
  inferenceTime :: real
  timestamp :: real
  grade :: "string option"

text \<open>
  The argument of \<^verbatim>\<open>saveGradingRecord\<close>: \<^verbatim>\<open>Omit<GradingRecord, 'id' | 'timestamp'>\<close>.
\<close>

record GradingInput =
  in_imageUrl :: string
  in_predictions :: "real list"
  in_topClass :: real
  in_confidence :: real
  in_inferenceTime :: real
  in_grade :: "string option"

text \<open>
  The text stored under \<^verbatim>\<open>STORAGE_KEY\<close>, by what \<^verbatim>\<open>JSON.parse\<close> makes of it: \<open>Malformed\<close>
  is a text on which \<^verbatim>\<open>JSON.parse\<close> throws (the empty text, which \<^verbatim>\<open>!data\<close> catches
  with the same result, is counted here too), \<open>History h\<close> is the JSON text of the
  array \<open>h\<close>. The declared return type \<^verbatim>\<open>GradingRecord[]\<close> leaves no other shape.
\<close>

datatype stored = Malformed | History "GradingRecord list"

text \<open>
  The browser's localStorage, as far as this module sees it: the item under the one
  key it uses, and whether the browser refuses the next read (\<^verbatim>\<open>getItem\<close> throws a
  SecurityError) or the next write (\<^verbatim>\<open>setItem\<close> throws a QuotaExceededError).
\<close>

record localStorage =
  item :: "stored option"
  getItem_throws :: bool
  setItem_throws :: bool

definition getItem :: "localStorage \<Rightarrow> error + stored option" where
  "getItem st = (if getItem_throws st then Inl (DOMException ''SecurityError'') else Inr (item st))"

definition setItem :: "stored \<Rightarrow> localStorage \<Rightarrow> error + localStorage" where
  "setItem v st =
     (if setItem_throws st then Inl (DOMException ''QuotaExceededError'')
      else Inr (st\<lparr>item := Some v\<rparr>))"

definition removeItem :: "localStorage \<Rightarrow> localStorage" where
  "removeItem st = st\<lparr>item := None\<rparr>"

text \<open>
  \<^verbatim>\<open>getGradingHistory\<close>: every failure inside the \<^verbatim>\<open>try\<close> is caught and gives \<open>[]\<close>.
\<close>

definition getGradingHistory :: "localStorage \<Rightarrow> GradingRecord list" where
  "getGradingHistory st =
     (case getItem st of
        Inl e \<Rightarrow> []
      | Inr None \<Rightarrow> []
      | Inr (Some Malformed) \<Rightarrow> []
      | Inr (Some (History h)) \<Rightarrow> h)"

text \<open>
  \<^verbatim>\<open>{ ...record, id: generateId(), timestamp: Date.now() }\<close>. The identifier that
  \<^verbatim>\<open>generateId\<close> builds from the clock and \<^verbatim>\<open>Math.random\<close>, and the clock's reading, are
  arguments: \<open>newId\<close> and \<open>now\<close>.
\<close>

definition newRecord :: "GradingInput \<Rightarrow> string \<Rightarrow> real \<Rightarrow> GradingRecord" where
  "newRecord record newId now =
     \<lparr>id_field = newId, imageUrl = in_imageUrl record, predictions = in_predictions record,
      topClass = in_topClass record, confidence = in_confidence record,
      inferenceTime = in_inferenceTime record, timestamp = now, grade = in_grade record\<rparr>"

text \<open>
  \<^verbatim>\<open>saveGradingRecord\<close>: \<^verbatim>\<open>unshift\<close> puts the new record first, \<^verbatim>\<open>slice(0, 100)\<close> keeps
  the first hundred. A failure of the write is rethrown as
  \<^verbatim>\<open>Error('Failed to save grading record')\<close> and leaves the storage as it was.
\<close>

definition saveGradingRecord ::
  "GradingInput \<Rightarrow> string \<Rightarrow> real \<Rightarrow> localStorage \<Rightarrow> (error + GradingRecord) \<times> localStorage" where
  "saveGradingRecord record newId now st =
     (let history = getGradingHistory st;
          r = newRecord record newId now;
          limitedHistory = take 100 (r # history)
      in case setItem (History limitedHistory) st of
           Inr st' \<Rightarrow> (Inr r, st')
         | Inl e \<Rightarrow> (Inl (Error ''Failed to save grading record''), st))"

text \<open>
  \<^verbatim>\<open>deleteGradingRecord\<close>: the whole body is inside \<^verbatim>\<open>try\<close>, and the \<^verbatim>\<open>catch\<close> only logs.
\<close>

definition deleteGradingRecord :: "string \<Rightarrow> localStorage \<Rightarrow> (error + unit) \<times> localStorage" where
  "deleteGradingRecord i st =
     (let history = getGradingHistory st;
          filtered = filter (\<lambda>record. id_field record \<noteq> i) history
      in case setItem (History filtered) st of
           Inr st' \<Rightarrow> (Inr (), st')
         | Inl e \<Rightarrow> (Inr (), st))"

definition clearGradingHistory :: "localStorage \<Rightarrow> localStorage" where
  "clearGradingHistory st = removeItem st"

section \<open>Tensor conversion (lib/tflite/wasmClient, imageDataToTensor)\<close>

text \<open>
  \<^verbatim>\<open>ImageData\<close>: \<open>data\<close> is the \<^verbatim>\<open>Uint8ClampedArray\<close> of RGBA bytes, four per pixel, row by row.
\<close>

record ImageData =
  width :: nat
  height :: nat
  data :: "8 word list"

text \<open>
  The canvas API is the browser's, not this repository's. \<open>getContext_null\<close> says that
  \<^verbatim>\<open>canvas.getContext('2d')\<close> returns null; \<open>getImageData img w h\<close> is what
  \<^verbatim>\<open>ctx.getImageData(0, 0, w, h)\<close> reads back after \<open>img\<close> was painted onto the
  \<open>w\<close> by \<open>h\<close> canvas with \<^verbatim>\<open>drawImage(tempCanvas, 0, 0, w, h)\<close>: the resized image.
\<close>

record document =
  getContext_null :: bool
  getImageData :: "ImageData \<Rightarrow> nat \<Rightarrow> nat \<Rightarrow> ImageData"

text \<open>
  Reading \<^verbatim>\<open>resized.data[i]\<close> and storing it into a \<^verbatim>\<open>Uint8Array\<close>: an index past
  the end reads \<^verbatim>\<open>undefined\<close>, which is stored as 0. Storing at an index past the end of a
  typed array does nothing, which is what \<open>xs[i := v]\<close> does in HOL.
\<close>

definition read_u8 :: "8 word list \<Rightarrow> nat \<Rightarrow> 8 word" where
  "read_u8 d i = (if i < length d then d ! i else 0)"

text \<open>
  The loop \<^verbatim>\<open>for (let i = 0; i < resized.data.length; i += 4)\<close> with its three stores and
  the running \<^verbatim>\<open>rgbIndex\<close>.
\<close>

function rgb_loop :: "8 word list \<Rightarrow> nat \<Rightarrow> nat \<Rightarrow> 8 word list \<Rightarrow> 8 word list" where
  "rgb_loop d i rgbIndex rgbData =
     (if i < length d
      then rgb_loop d (i + 4) (rgbIndex + 3)
             (rgbData[rgbIndex := read_u8 d i,
                      rgbIndex + 1 := read_u8 d (i + 1),
                      rgbIndex + 2 := read_u8 d (i + 2)])
      else rgbData)"
  by pat_completeness auto
termination
  by (relation "measure (\<lambda>(d, i, rgbIndex, rgbData). length d - i)") auto

declare rgb_loop.simps [simp del]

text \<open>
  \<^verbatim>\<open>imageDataToTensor\<close>. A null context throws
  \<^verbatim>\<open>Error('Failed to get canvas context')\<close>; \<^verbatim>\<open>getImageData\<close> with a zero width or height
  throws an IndexSizeError. Widths and heights are natural numbers.
\<close>

definition imageDataToTensor :: "document \<Rightarrow> ImageData \<Rightarrow> nat \<Rightarrow> nat \<Rightarrow> error + 8 word list" where
  "imageDataToTensor doc imageData targetWidth targetHeight =
     (if getContext_null doc then Inl (Error ''Failed to get canvas context'')
      else if targetWidth = 0 \<or> targetHeight = 0 then Inl (DOMException ''IndexSizeError'')
      else let resized = getImageData doc imageData targetWidth targetHeight;
               rgbData = replicate (targetWidth * targetHeight * 3) 0
           in Inr (rgb_loop (data resized) 0 0 rgbData))"

section \<open>The inference worker channel (lib/tflite/wasmClient, class TFLiteClient)\<close>

subsection \<open>Messages, promises and the client's state\<close>

text \<open>
  \<^verbatim>\<open>interface InferenceResult\<close>: \<open>output_data\<close> is the field \<^verbatim>\<open>output\<close>, a \<^verbatim>\<open>Float32Array\<close>,
  its numbers real numbers here.
\<close>

record InferenceResult =
  output_data :: "real list"
  inferenceTimeMs :: real

text \<open>
  What the client posts to the worker (\<^verbatim>\<open>InitMessage\<close>, \<^verbatim>\<open>InferMessage\<close>) and what the worker
  posts back (\<^verbatim>\<open>ResultMessage\<close>, \<^verbatim>\<open>ErrorMessage\<close>). The output of a result is \<open>None\<close> for
  the \<^verbatim>\<open>output: null\<close> that an already initialised worker answers to \<^verbatim>\<open>init\<close>. No message
  carries a request identifier.
\<close>

datatype worker_message = InitMessage string | InferMessage "8 word list" "nat list"

datatype worker_response = ResultMessage "real list option" real | ErrorMessage string

text \<open>
  A promise is a cell of the table \<open>promises\<close>, named by its index. \<open>Fulfilled None\<close> is a
  \<^verbatim>\<open>Promise<void>\<close> resolved, \<open>Fulfilled (Some r)\<close> a \<^verbatim>\<open>Promise<InferenceResult>\<close>
  resolved with \<open>r\<close>. A value of \<open>inferenceCallbacks\<close> is the pair of closures
  \<^verbatim>\<open>{resolve, reject}\<close> of one promise: \<open>InitCallback p\<close> is the \<^verbatim>\<open>initCallback\<close> that
  \<^verbatim>\<open>init\<close> stores under key 0, \<open>InferCallback p\<close> the pair that \<^verbatim>\<open>infer\<close> stores.
\<close>

datatype promise_state = Pending | Fulfilled "InferenceResult option" | Rejected error

datatype callback = InitCallback nat | InferCallback nat

datatype console_entry = Log string | Warn string | ErrorEntry string | Uncaught error

text \<open>
  A \<^verbatim>\<open>Worker\<close> object as the page sees it: whether \<^verbatim>\<open>terminate()\<close> was called on it, the
  messages posted to it (oldest first), and the promise that its \<^verbatim>\<open>onerror\<close> handler
  rejects.
\<close>

record Worker =
  terminated :: bool
  posted :: "worker_message list"
  onerror_promise :: nat

text \<open>
  The first five fields are the private fields of \<^verbatim>\<open>class TFLiteClient\<close>; \<open>worker\<close> and
  \<open>initPromise\<close> are \<open>None\<close> for \<^verbatim>\<open>null\<close>. \<open>inferenceCallbacks\<close> is the \<^verbatim>\<open>Map\<close>, in
  insertion order. The last three fields are what the client's calls reach outside
  the object: the promises it made, the workers it made, and the console.
\<close>

record TFLiteClient =
  worker :: "nat option"
  isInitialized :: bool
  initPromise :: "nat option"
  inferenceCallbacks :: "(nat \<times> callback) list"
  messageId :: nat
  promises :: "promise_state list"
  workers :: "Worker list"
  console :: "console_entry list"

text \<open>
  \<open>window_defined\<close> is \<^verbatim>\<open>typeof window !== 'undefined'\<close>; \<open>Worker_throws\<close> is the exception
  of \<^verbatim>\<open>new Worker(...)\<close>, if it throws.
\<close>

record browser =
  window_defined :: bool
  Worker_throws :: "error option"

definition console_log :: "string \<Rightarrow> TFLiteClient \<Rightarrow> TFLiteClient" where
  "console_log m s = s\<lparr>console := console s @ [Log m]\<rparr>"

definition console_warn :: "string \<Rightarrow> TFLiteClient \<Rightarrow> TFLiteClient" where
  "console_warn m s = s\<lparr>console := console s @ [Warn m]\<rparr>"

definition console_error :: "string \<Rightarrow> TFLiteClient \<Rightarrow> TFLiteClient" where
  "console_error m s = s\<lparr>console := console s @ [ErrorEntry m]\<rparr>"

text \<open>\<^verbatim>\<open>new Promise(...)\<close>, or \<^verbatim>\<open>Promise.resolve()\<close> when \<open>v\<close> is \<open>Fulfilled None\<close>.\<close>

definition new_promise :: "promise_state \<Rightarrow> TFLiteClient \<Rightarrow> nat \<times> TFLiteClient" where
  "new_promise v s = (length (promises s), s\<lparr>promises := promises s @ [v]\<rparr>)"

text \<open>Calling \<^verbatim>\<open>resolve\<close> or \<^verbatim>\<open>reject\<close> of a promise: a settled promise stays as it is.\<close>

definition settle :: "nat \<Rightarrow> promise_state \<Rightarrow> TFLiteClient \<Rightarrow> TFLiteClient" where
  "settle p v s =
     (if p < length (promises s) \<and> promises s ! p = Pending
      then s\<lparr>promises := (promises s)[p := v]\<rparr> else s)"

text \<open>\<^verbatim>\<open>worker.postMessage(m)\<close>; a terminated worker discards what is posted to it.\<close>

definition postMessage :: "nat \<Rightarrow> worker_message \<Rightarrow> TFLiteClient \<Rightarrow> TFLiteClient" where
  "postMessage w m s =
     (if w < length (workers s) \<and> \<not> terminated (workers s ! w)
      then s\<lparr>workers := (workers s)[w := (workers s ! w)\<lparr>posted := posted (workers s ! w) @ [m]\<rparr>]\<rparr>
      else s)"

text \<open>
  \<^verbatim>\<open>callback.resolve(result)\<close> and \<^verbatim>\<open>callback.reject(error)\<close>. The \<^verbatim>\<open>initCallback\<close> sets
  \<^verbatim>\<open>isInitialized\<close> and ignores the result it is given.
\<close>

fun resolve_callback :: "callback \<Rightarrow> InferenceResult \<Rightarrow> TFLiteClient \<Rightarrow> TFLiteClient" where
  "resolve_callback (InitCallback p) result s =
     settle p (Fulfilled None)
       (console_log ''[TFLiteClient] Initialized successfully'' (s\<lparr>isInitialized := True\<rparr>))"
| "resolve_callback (InferCallback p) result s = settle p (Fulfilled (Some result)) s"

fun reject_callback :: "callback \<Rightarrow> error \<Rightarrow> TFLiteClient \<Rightarrow> TFLiteClient" where
  "reject_callback (InitCallback p) e s =
     settle p (Rejected e) (console_error ''[TFLiteClient] Initialization failed:'' s)"
| "reject_callback (InferCallback p) e s = settle p (Rejected e) s"

subsection \<open>The methods of the client\<close>

text \<open>
  \<^verbatim>\<open>async init(modelUrl)\<close>. The result is \<open>Inl e\<close> when the call throws (an \<^verbatim>\<open>async\<close>
  function then returns a promise rejected with \<open>e\<close>), and \<open>Inr p\<close> when it returns the
  promise \<open>p\<close>: the caller's promise settles as \<open>p\<close> does. An exception of
  \<^verbatim>\<open>new Worker\<close> is caught inside the executor, which rejects the new promise; the
  assignment to \<^verbatim>\<open>this.initPromise\<close> follows either way.
\<close>

definition init :: "browser \<Rightarrow> string \<Rightarrow> TFLiteClient \<Rightarrow> (error + nat) \<times> TFLiteClient" where
  "init env modelUrl s =
     (case initPromise s of
        Some p \<Rightarrow> (Inr p, s)
      | None \<Rightarrow>
          if isInitialized s then
            (let (p, s1) = new_promise (Fulfilled None) s in (Inr p, s1))
          else if \<not> window_defined env then
            (Inl (Error ''TFLiteClient can only be used in browser context''), s)
          else
            (let (p, s1) = new_promise Pending s;
                 s2 = console_log ''[TFLiteClient] Creating worker...'' s1
             in case Worker_throws env of
                  Some e \<Rightarrow>
                    (let s3 = console_error ''[TFLiteClient] Failed to create worker:'' s2;
                         s4 = settle p (Rejected e) s3
                     in (Inr p, s4\<lparr>initPromise := Some p\<rparr>))
                | None \<Rightarrow>
                    (let w = length (workers s2);
                         s3 = s2\<lparr>workers := workers s2 @
                                  [\<lparr>terminated = False, posted = [], onerror_promise = p\<rparr>],
                                worker := Some w\<rparr>;
                         s4 = s3\<lparr>inferenceCallbacks :=
                                  AList.update 0 (InitCallback p) (inferenceCallbacks s3)\<rparr>;
                         s5 = console_log ''[TFLiteClient] Sending init message with model:'' s4;
                         s6 = postMessage w (InitMessage modelUrl) s5
                     in (Inr p, s6\<lparr>initPromise := Some p\<rparr>))))"

text \<open>
  \<^verbatim>\<open>async infer(input, inputShape?)\<close>: \<open>Inl\<close> is the rejection of the guard, \<open>Inr p\<close> the new
  promise. \<^verbatim>\<open>++this.messageId\<close> is the key of the stored callbacks; the message posted to
  the worker does not hold it. \<^verbatim>\<open>inputShape || [1, 224, 224, 3]\<close> replaces only a missing
  shape, an array being truthy. The transfer of \<^verbatim>\<open>input.buffer\<close> to the worker, which
  empties the caller's array, is not modelled: inputs are values.
\<close>

definition infer ::
  "8 word list \<Rightarrow> nat list option \<Rightarrow> TFLiteClient \<Rightarrow> (error + nat) \<times> TFLiteClient" where
  "infer input inputShape s =
     (case worker s of
        None \<Rightarrow> (Inl (Error ''TFLiteClient not initialized. Call init() first.''), s)
      | Some w \<Rightarrow>
          if \<not> isInitialized s then
            (Inl (Error ''TFLiteClient not initialized. Call init() first.''), s)
          else
            (let (p, s1) = new_promise Pending s;
                 s2 = s1\<lparr>messageId := messageId s1 + 1\<rparr>;
                 s3 = s2\<lparr>inferenceCallbacks :=
                          AList.update (messageId s2) (InferCallback p) (inferenceCallbacks s2)\<rparr>;
                 s4 = console_log ''[TFLiteClient] Sending inference request, input size:'' s3;
                 s5 = postMessage w
                        (InferMessage input
                           (case inputShape of None \<Rightarrow> [1, 224, 224, 3] | Some sh \<Rightarrow> sh)) s4
             in (Inr p, s5)))"

text \<open>
  \<^verbatim>\<open>handleWorkerMessage(data)\<close>. For a result, the key is 0 when the output is the
  one-element array \<open>[1]\<close> and the current \<^verbatim>\<open>this.messageId\<close> otherwise. In the inference
  branch \<^verbatim>\<open>output.length\<close> is read for the log before the callback runs, which throws a
  TypeError out of the handler when the output is null.
\<close>

definition handleWorkerMessage :: "worker_response \<Rightarrow> TFLiteClient \<Rightarrow> TFLiteClient" where
  "handleWorkerMessage msg s =
     (case msg of
        ErrorMessage err \<Rightarrow>
          (let s1 = console_error ''[TFLiteClient] Worker error:'' s;
               s2 = fold (\<lambda>(k, cb). reject_callback cb (Error err)) (inferenceCallbacks s1) s1
           in s2\<lparr>inferenceCallbacks := []\<rparr>)
      | ResultMessage out t \<Rightarrow>
          (let mid = (if out = Some [1] then 0 else messageId s)
           in case map_of (inferenceCallbacks s) mid of
                None \<Rightarrow> console_warn ''[TFLiteClient] Received result for unknown message ID:'' s
              | Some cb \<Rightarrow>
                  if mid = 0 then
                    (let s1 = resolve_callback cb \<lparr>output_data = [], inferenceTimeMs = 0\<rparr> s
                     in s1\<lparr>inferenceCallbacks := AList.delete mid (inferenceCallbacks s1)\<rparr>)
                  else
                    (case out of
                       None \<Rightarrow> s\<lparr>console := console s @
                                  [Uncaught (TypeError ''Cannot read properties of null'')]\<rparr>
                     | Some vs \<Rightarrow>
                         (let s1 = console_log
                                     ''[TFLiteClient] Inference result received, output size:'' s;
                              s2 = resolve_callback cb \<lparr>output_data = vs, inferenceTimeMs = t\<rparr> s1
                          in s2\<lparr>inferenceCallbacks :=
                                   AList.delete mid (inferenceCallbacks s2)\<rparr>))))"

text \<open>The \<^verbatim>\<open>worker.onerror\<close> handler that \<^verbatim>\<open>init\<close> installs on worker \<open>w\<close>.\<close>

definition worker_onerror :: "nat \<Rightarrow> string \<Rightarrow> TFLiteClient \<Rightarrow> TFLiteClient" where
  "worker_onerror w m s =
     (if w < length (workers s)
      then settle (onerror_promise (workers s ! w)) (Rejected (Error (''Worker error: '' @ m)))
             (console_error ''[TFLiteClient] Worker error:'' s)
      else s)"

text \<open>\<^verbatim>\<open>terminate()\<close>.\<close>

definition terminate :: "TFLiteClient \<Rightarrow> TFLiteClient" where
  "terminate s =
     (let s1 = (case worker s of
                  Some w \<Rightarrow>
                    (let s' = console_log ''[TFLiteClient] Terminating worker'' s
                     in s'\<lparr>workers := (if w < length (workers s')
                                        then (workers s')[w := (workers s' ! w)\<lparr>terminated := True\<rparr>]
                                        else workers s'),
                           worker := None\<rparr>)
                | None \<Rightarrow> s)
      in s1\<lparr>isInitialized := False, initPromise := None, inferenceCallbacks := []\<rparr>)"

text \<open>\<^verbatim>\<open>get initialized()\<close>.\<close>

definition initialized :: "TFLiteClient \<Rightarrow> bool" where
  "initialized s = isInitialized s"

text \<open>\<^verbatim>\<open>new TFLiteClient()\<close> in a page that has made no promise and no worker yet.\<close>

definition new_TFLiteClient :: TFLiteClient where
  "new_TFLiteClient =
     \<lparr>worker = None, isInitialized = False, initPromise = None, inferenceCallbacks = [],
      messageId = 0, promises = [], workers = [], console = []\<rparr>"

section \<open>The worker (workers/tflite-worker)\<close>

text \<open>Decimal numerals, for the numbers that the source's template strings print.\<close>

fun show_nat :: "nat \<Rightarrow> string" where
  "show_nat n =
     (if n < 10 then [''0123456789'' ! n]
      else show_nat (n div 10) @ [''0123456789'' ! (n mod 10)])"

declare show_nat.simps [simp del]

definition show_int :: "int \<Rightarrow> string" where
  "show_int i = (if i < 0 then CHR ''-'' # show_nat (nat (- i)) else show_nat (nat i))"

text \<open>\<^verbatim>\<open>error.message\<close>.\<close>

fun message :: "error \<Rightarrow> string" where
  "message (Error m) = m"
| "message (TypeError m) = m"
| "message (DOMException m) = m"

text \<open>
  The worker's surroundings, which are not this repository's code: whether
  \<^verbatim>\<open>importScripts('/tflite/tflite.js')\<close> throws, whether the script defines
  \<^verbatim>\<open>createTFLiteModule\<close>, whether the WebAssembly runtime aborts instead of starting,
  what \<^verbatim>\<open>fetch(modelUrl)\<close> gives, the status code of \<^verbatim>\<open>_loadModel\<close> for a model file,
  the status code of \<^verbatim>\<open>_runInference\<close> for an input, and the output it leaves in the
  runtime's memory.
\<close>

datatype fetch_result = FetchRejects error | FetchResponse bool string "8 word list"

record runtime =
  importScripts_throws :: "error option"
  createTFLiteModule_defined :: bool
  runtime_aborts :: bool
  fetch_model :: "string \<Rightarrow> fetch_result"
  loadModel_code :: "8 word list \<Rightarrow> int"
  runInference_code :: "8 word list \<Rightarrow> int"
  runInference_output :: "8 word list \<Rightarrow> real list"

text \<open>
  The worker's three globals: \<open>w_tfliteModule\<close> says that \<^verbatim>\<open>tfliteModule\<close> is not null,
  \<open>w_isInitialized\<close> and \<open>w_modelLoaded\<close> are \<^verbatim>\<open>isInitialized\<close> and \<^verbatim>\<open>modelLoaded\<close>.
\<close>

record worker_globals =
  w_tfliteModule :: bool
  w_isInitialized :: bool
  w_modelLoaded :: bool

definition loadTFLiteWasm :: "runtime \<Rightarrow> error + unit" where
  "loadTFLiteWasm rt =
     (case importScripts_throws rt of
        Some e \<Rightarrow> Inl e
      | None \<Rightarrow>
          if \<not> createTFLiteModule_defined rt
          then Inl (Error ''TFLite module not found. Ensure tflite.js is loaded.'')
          else if runtime_aborts rt
          then Inl (Error ''Failed to initialize TFLite WASM runtime'')
          else Inr ())"

text \<open>The worker's \<^verbatim>\<open>loadModel(modelUrl)\<close>.\<close>

definition worker_loadModel :: "runtime \<Rightarrow> string \<Rightarrow> worker_globals \<Rightarrow> error + worker_globals" where
  "worker_loadModel rt modelUrl g =
     (if \<not> w_tfliteModule g then Inl (Error ''TFLite module not initialized'')
      else case fetch_model rt modelUrl of
             FetchRejects e \<Rightarrow> Inl e
           | FetchResponse ok statusText modelBytes \<Rightarrow>
               if \<not> ok then Inl (Error (''Failed to fetch model: '' @ statusText))
               else let result = loadModel_code rt modelBytes
                    in if result \<noteq> 0
                       then Inl (Error (''Failed to load model. Error code: '' @ show_int result))
                       else Inr (g\<lparr>w_modelLoaded := True\<rparr>))"

text \<open>The worker's \<^verbatim>\<open>runInference(input, inputShape)\<close>.\<close>

definition worker_runInference ::
  "runtime \<Rightarrow> 8 word list \<Rightarrow> nat list \<Rightarrow> worker_globals \<Rightarrow> error + real list" where
  "worker_runInference rt input inputShape g =
     (if \<not> w_tfliteModule g then Inl (Error ''TFLite module not initialized'')
      else if \<not> w_modelLoaded g then Inl (Error ''Model not loaded'')
      else let result = runInference_code rt input
           in if result \<noteq> 0
              then Inl (Error (''Inference failed. Error code: '' @ show_int result))
              else Inr (runInference_output rt input))"

text \<open>
  \<^verbatim>\<open>self.onmessage\<close>: one message in, one message out. Every exception is caught and
  answered with an \<^verbatim>\<open>ErrorMessage\<close> of its text.
\<close>

definition onmessage ::
  "runtime \<Rightarrow> worker_message \<Rightarrow> worker_globals \<Rightarrow> worker_response \<times> worker_globals" where
  "onmessage rt m g =
     (case m of
        InitMessage modelUrl \<Rightarrow>
          if w_isInitialized g then (ResultMessage None 0, g)
          else (case loadTFLiteWasm rt of
                  Inl e \<Rightarrow> (ErrorMessage (message e), g)
                | Inr u \<Rightarrow>
                    (let g1 = g\<lparr>w_tfliteModule := True, w_isInitialized := True\<rparr>
                     in case worker_loadModel rt modelUrl g1 of
                          Inl e \<Rightarrow> (ErrorMessage (message e), g1)
                        | Inr g2 \<Rightarrow> (ResultMessage (Some [1]) 0, g2)))
      | InferMessage input inputShape \<Rightarrow>
          if \<not> w_isInitialized g \<or> \<not> w_modelLoaded g
          then (ErrorMessage ''Worker not initialized or model not loaded'', g)
          else (case worker_runInference rt input inputShape g of
                  Inl e \<Rightarrow> (ErrorMessage (message e), g)
                | Inr out \<Rightarrow> (ResultMessage (Some out) 0, g)))"

definition new_worker_globals :: worker_globals where
  "new_worker_globals = \<lparr>w_tfliteModule = False, w_isInitialized = False, w_modelLoaded = False\<rparr>"

subsection \<open>The page and its worker together\<close>

text \<open>
  One turn of the worker: it takes the oldest message of the client's current worker
  that it has not handled yet (\<open>n\<close> counts the handled ones), runs \<open>onmessage\<close> on it,
  and the client's \<^verbatim>\<open>worker.onmessage\<close> hands the answer to \<open>handleWorkerMessage\<close>. The
  worker is single threaded and answers in the order of arrival.
\<close>

definition worker_turn ::
  "runtime \<Rightarrow> TFLiteClient \<times> worker_globals \<times> nat \<Rightarrow> TFLiteClient \<times> worker_globals \<times> nat" where
  "worker_turn rt = (\<lambda>(s, g, n).
     case worker s of
       None \<Rightarrow> (s, g, n)
     | Some w \<Rightarrow>
         if w < length (workers s) then
           (case drop n (posted (workers s ! w)) of
              [] \<Rightarrow> (s, g, n)
            | m # ms \<Rightarrow>
                (let (answer, g') = onmessage rt m g
                 in (handleWorkerMessage answer s, g', n + 1)))
         else (s, g, n))"

text \<open>A call of the client's, lifted to the page and its worker.\<close>

definition client_call ::
  "(TFLiteClient \<Rightarrow> 'a \<times> TFLiteClient) \<Rightarrow> TFLiteClient \<times> worker_globals \<times> nat \<Rightarrow>
     TFLiteClient \<times> worker_globals \<times> nat" where
  "client_call f = (\<lambda>(s, g, n). (snd (f s), g, n))"

text \<open>Several \<^verbatim>\<open>init\<close> calls one after the other, with no event between them.\<close>

fun init_calls :: "browser \<Rightarrow> string list \<Rightarrow> TFLiteClient \<Rightarrow> (error + nat) list \<times> TFLiteClient" where
  "init_calls env [] s = ([], s)"
| "init_calls env (u # us) s =
     (let (r, s1) = init env u s; (rs, s2) = init_calls env us s1 in (r # rs, s2))"

definition callback_promise :: "callback \<Rightarrow> nat" where
  "callback_promise cb = (case cb of InitCallback p \<Rightarrow> p | InferCallback p \<Rightarrow> p)"

section \<open>Inference through the backend (lib/tflite/index)\<close>

text \<open>
  The JSON object of a response body, by the three fields that \<^verbatim>\<open>runInference\<close> reads;
  \<open>None\<close> is a field that is missing or null.
\<close>

record api_data =
  data_predictions :: "real list option"
  data_confidence :: "real option"
  data_inferenceTime :: "real option"

text \<open>
  What \<^verbatim>\<open>fetch\<close> settles with: a rejection, or a response with its \<^verbatim>\<open>ok\<close> flag, its
  status and its body; \<open>BodyInvalid\<close> is a body on which \<^verbatim>\<open>response.json()\<close> rejects.
\<close>

datatype api_body = BodyInvalid | BodyObject api_data

datatype fetch_outcome = FetchFailed | Response bool nat api_body

text \<open>
  \<open>api_fetch\<close> is \<^verbatim>\<open>fetch(INFERENCE_API, ...)\<close> by the image posted, \<open>api_elapsed\<close> the
  difference of the two readings of \<^verbatim>\<open>performance.now()\<close> around it.
\<close>

record api_env =
  api_fetch :: "string \<Rightarrow> fetch_outcome"
  api_elapsed :: "string \<Rightarrow> real"

text \<open>
  \<^verbatim>\<open>interface InferenceResult\<close> of this module. \<open>api_topClass\<close> is -1 when \<^verbatim>\<open>indexOf\<close> finds
  nothing; \<open>api_confidence\<close> is \<open>None\<close> for \<^verbatim>\<open>undefined\<close>. There is no field that marks a failure.
\<close>

record InferenceResult_api =
  api_predictions :: "real list"
  api_topClass :: int
  api_confidence :: "real option"
  api_inferenceTime :: real

definition Math_round :: "real \<Rightarrow> real" where
  "Math_round x = of_int \<lfloor>x + 1 / 2\<rfloor>"

text \<open>\<^verbatim>\<open>Math.max(...xs)\<close>; \<open>None\<close> is the \<^verbatim>\<open>-Infinity\<close> of no arguments.\<close>

definition Math_max :: "real list \<Rightarrow> real option" where
  "Math_max xs = (case xs of [] \<Rightarrow> None | x # ys \<Rightarrow> Some (fold max ys x))"

text \<open>\<^verbatim>\<open>xs.indexOf(x)\<close>: the first position of \<open>x\<close>, or -1.\<close>

fun indexOf :: "real list \<Rightarrow> real \<Rightarrow> int" where
  "indexOf [] x = - 1"
| "indexOf (y # ys) x =
     (if y = x then 0 else (let i = indexOf ys x in if i < 0 then - 1 else i + 1))"

text \<open>\<^verbatim>\<open>x || d\<close> for a number \<open>x\<close> that may be missing: 0 is falsy too.\<close>

definition or_else :: "real option \<Rightarrow> real \<Rightarrow> real" where
  "or_else x d = (case x of None \<Rightarrow> d | Some v \<Rightarrow> if v = 0 then d else v)"

text \<open>\<^verbatim>\<open>runInference(imageDataUrl, options?)\<close> of lib/tflite/index; the options are not read.\<close>

definition runInference_api :: "api_env \<Rightarrow> string \<Rightarrow> error + InferenceResult_api" where
  "runInference_api env imageDataUrl =
     (case api_fetch env imageDataUrl of
        FetchFailed \<Rightarrow> Inl (TypeError ''Failed to fetch'')
      | Response ok status body \<Rightarrow>
          if \<not> ok then Inl (Error (''Backend inference failed: '' @ show_nat status))
          else (case body of
                  BodyInvalid \<Rightarrow> Inl (Error ''Unexpected end of JSON input'')
                | BodyObject d \<Rightarrow>
                    (let totalTime = Math_round (api_elapsed env imageDataUrl);
                         ps = (case data_predictions d of
                                 Some xs \<Rightarrow> xs
                               | None \<Rightarrow> [or_else (data_confidence d) (1 / 2)]);
                         top = (case Math_max ps of None \<Rightarrow> - 1 | Some m \<Rightarrow> indexOf ps m)
                     in Inr \<lparr>api_predictions = ps,
                             api_topClass = top,
                             api_confidence =
                               (case data_confidence d of
                                  Some c \<Rightarrow> if c = 0 then (if top < 0 then None
                                                             else Some (ps ! nat top))
                                            else Some c
                                | None \<Rightarrow> if top < 0 then None else Some (ps ! nat top)),
                             api_inferenceTime = or_else (data_inferenceTime d) totalTime\<rparr>)))"

text \<open>
  \<^verbatim>\<open>Promise.all\<close> over promises that settle in the order of the list: the array of all
  values, or the first rejection.
\<close>

fun Promise_all :: "(error + 'a) list \<Rightarrow> error + 'a list" where
  "Promise_all [] = Inr []"
| "Promise_all (Inl e # rs) = Inl e"
| "Promise_all (Inr x # rs) = (case Promise_all rs of Inl e \<Rightarrow> Inl e | Inr xs \<Rightarrow> Inr (x # xs))"

text \<open>\<^verbatim>\<open>runBatchInference\<close> of lib/tflite/index.\<close>

definition runBatchInference_api :: "api_env \<Rightarrow> string list \<Rightarrow> error + InferenceResult_api list" where
  "runBatchInference_api env imageDataUrls =
     Promise_all (map (\<lambda>url. runInference_api env url) imageDataUrls)"

section \<open>Inference in the browser (lib/tflite/loadModel, lib/tflite/runInference)\<close>

text \<open>
  TensorFlow.js and the DOM, which are not this repository's code, over models \<open>'m\<close>,
  tensors \<open>'t\<close> and preprocessing options \<open>'c\<close>: \<^verbatim>\<open>typeof window\<close>, the rejection of
  \<^verbatim>\<open>tf.ready()\<close> if any, the outcome of \<^verbatim>\<open>tf.loadGraphModel(MODEL_PATH)\<close>, the image that a
  data URL decodes to (\<open>None\<close> when \<^verbatim>\<open>img.onerror\<close> fires), whether \<^verbatim>\<open>getContext('2d')\<close> is
  null, \<^verbatim>\<open>preprocessImage\<close> (tensor arithmetic of TensorFlow.js), \<^verbatim>\<open>model.predict\<close>
  followed by \<^verbatim>\<open>outputTensor.data()\<close> (\<open>Inr None\<close> when there is no output tensor), and
  the time that passes during one call.
\<close>

record ('m, 't, 'c) tfjs =
  tf_window_defined :: bool
  tf_ready_rejects :: "error option"
  tf_loadGraphModel :: "error + 'm"
  tf_decode :: "string \<Rightarrow> ImageData option"
  tf_getContext_null :: bool
  tf_preprocessImage :: "ImageData \<Rightarrow> 'c \<Rightarrow> error + 't"
  tf_predict :: "'m \<Rightarrow> 't \<Rightarrow> error + real list option"
  tf_elapsed :: "string \<Rightarrow> real"

text \<open>\<^verbatim>\<open>interface InferenceResult\<close> of lib/tflite/runInference.\<close>

record InferenceResult_tf =
  tf_predictions :: "real list"
  tf_inferenceTimeMs :: real
  modelLoaded :: bool

definition initializeTFJS :: "('m, 't, 'c) tfjs \<Rightarrow> error + unit" where
  "initializeTFJS tf =
     (if \<not> tf_window_defined tf
      then Inl (Error ''TensorFlow.js can only be initialized in browser context'')
      else case tf_ready_rejects tf of Some e \<Rightarrow> Inl e | None \<Rightarrow> Inr ())"

text \<open>
  \<^verbatim>\<open>loadModel()\<close>, awaited: the state is the module's \<^verbatim>\<open>modelInstance\<close>. The calls modelled
  here are awaited one after the other, so none starts while a load is in flight:
  \<^verbatim>\<open>isLoading\<close> is false and \<^verbatim>\<open>loadPromise\<close> null at each call, as the \<^verbatim>\<open>finally\<close> block
  leaves them.
\<close>

definition loadModel :: "('m, 't, 'c) tfjs \<Rightarrow> 'm option \<Rightarrow> (error + 'm) \<times> 'm option" where
  "loadModel tf modelInstance =
     (if \<not> tf_window_defined tf
      then (Inl (Error ''Model loading can only occur in browser context''), modelInstance)
      else case modelInstance of
             Some m \<Rightarrow> (Inr m, modelInstance)
           | None \<Rightarrow>
               (case initializeTFJS tf of
                  Inl e \<Rightarrow> (Inl (Error (''Failed to load model: '' @ message e)), None)
                | Inr u \<Rightarrow>
                    (case tf_loadGraphModel tf of
                       Inl e \<Rightarrow> (Inl (Error (''Failed to load model: '' @ message e)), None)
                     | Inr m \<Rightarrow> (Inr m, Some m))))"

text \<open>\<^verbatim>\<open>dataUrlToImageData\<close> and \<^verbatim>\<open>preprocessFromDataUrl\<close> of lib/tflite/preprocess.\<close>

definition dataUrlToImageData :: "('m, 't, 'c) tfjs \<Rightarrow> string \<Rightarrow> error + ImageData" where
  "dataUrlToImageData tf dataUrl =
     (case tf_decode tf dataUrl of
        None \<Rightarrow> Inl (Error ''Failed to load image from dataURL'')
      | Some img \<Rightarrow>
          if tf_getContext_null tf then Inl (Error ''Failed to get canvas 2D context'')
          else Inr img)"

definition preprocessFromDataUrl :: "('m, 't, 'c) tfjs \<Rightarrow> string \<Rightarrow> 'c \<Rightarrow> error + 't" where
  "preprocessFromDataUrl tf dataUrl config =
     (case dataUrlToImageData tf dataUrl of
        Inl e \<Rightarrow> Inl e
      | Inr imageData \<Rightarrow> tf_preprocessImage tf imageData config)"

text \<open>
  \<^verbatim>\<open>runInference(dataUrl, options)\<close> of lib/tflite/runInference. The check of
  \<^verbatim>\<open>typeof window\<close> throws outside the \<^verbatim>\<open>try\<close>; every exception inside it is rethrown
  as \<^verbatim>\<open>Error('Inference failed: ' + message)\<close>. The console output and the disposal of
  the tensors are left out.
\<close>

definition runInference ::
  "('m, 't, 'c) tfjs \<Rightarrow> string \<Rightarrow> 'c \<Rightarrow> 'm option \<Rightarrow> (error + InferenceResult_tf) \<times> 'm option" where
  "runInference tf dataUrl options modelInstance =
     (if \<not> tf_window_defined tf
      then (Inl (Error ''Inference can only run in browser context''), modelInstance)
      else case loadModel tf modelInstance of
             (Inl e, mi) \<Rightarrow> (Inl (Error (''Inference failed: '' @ message e)), mi)
           | (Inr model, mi) \<Rightarrow>
               (case preprocessFromDataUrl tf dataUrl options of
                  Inl e \<Rightarrow> (Inl (Error (''Inference failed: '' @ message e)), mi)
                | Inr inputTensor \<Rightarrow>
                    (case tf_predict tf model inputTensor of
                       Inl e \<Rightarrow> (Inl (Error (''Inference failed: '' @ message e)), mi)
                     | Inr None \<Rightarrow>
                         (Inl (Error (''Inference failed: '' @
                                      ''Model prediction returned no output'')), mi)
                     | Inr (Some ps) \<Rightarrow>
                         (Inr \<lparr>tf_predictions = ps,
                               tf_inferenceTimeMs = Math_round (tf_elapsed tf dataUrl),
                               modelLoaded = True\<rparr>, mi))))"

text \<open>
  The loop of \<^verbatim>\<open>runBatchInference\<close>: each call is inside its own \<^verbatim>\<open>try\<close>, and the
  \<^verbatim>\<open>catch\<close> pushes the failed result.
\<close>

definition failed_result :: InferenceResult_tf where
  "failed_result = \<lparr>tf_predictions = [], tf_inferenceTimeMs = 0, modelLoaded = False\<rparr>"

fun batch_loop ::
  "('m, 't, 'c) tfjs \<Rightarrow> string list \<Rightarrow> 'c \<Rightarrow> 'm option \<Rightarrow> InferenceResult_tf list \<Rightarrow>
     InferenceResult_tf list \<times> 'm option" where
  "batch_loop tf [] options mi results = (results, mi)"
| "batch_loop tf (dataUrl # rest) options mi results =
     (case runInference tf dataUrl options mi of
        (Inr result, mi') \<Rightarrow> batch_loop tf rest options mi' (results @ [result])
      | (Inl e, mi') \<Rightarrow> batch_loop tf rest options mi' (results @ [failed_result]))"

text \<open>
  \<^verbatim>\<open>runBatchInference(dataUrls, options)\<close> of lib/tflite/runInference: the first
  \<^verbatim>\<open>await loadModel()\<close> is outside every \<^verbatim>\<open>try\<close>.
\<close>

definition runBatchInference ::
  "('m, 't, 'c) tfjs \<Rightarrow> string list \<Rightarrow> 'c \<Rightarrow> 'm option \<Rightarrow>
     (error + InferenceResult_tf list) \<times> 'm option" where
  "runBatchInference tf dataUrls options modelInstance =
     (case loadModel tf modelInstance of
        (Inl e, mi) \<Rightarrow> (Inl e, mi)
      | (Inr model, mi) \<Rightarrow>
          (let (results, mi') = batch_loop tf dataUrls options mi [] in (Inr results, mi')))"

text \<open>
  What the batch of lib/tflite/runInference holds for one image once the model \<open>m\<close> is
  cached: the result of \<open>runInference\<close>, or the failed result when it throws.
\<close>

definition batch_item :: "('m, 't, 'c) tfjs \<Rightarrow> 'c \<Rightarrow> 'm \<Rightarrow> string \<Rightarrow> InferenceResult_tf" where
  "batch_item tf options m u =
     (case fst (runInference tf u options (Some m)) of Inr r \<Rightarrow> r | Inl e \<Rightarrow> failed_result)"

section \<open>Histories of the channel\<close>

text \<open>
  What can happen to a client between two calls of \<^verbatim>\<open>terminate\<close>: a call of \<^verbatim>\<open>init\<close> or
  \<^verbatim>\<open>infer\<close>, a message from the worker, or an error event of the current worker.
\<close>

datatype page_event =
    CallInit string
  | CallInfer "8 word list" "nat list option"
  | WorkerAnswer worker_response
  | WorkerFault string

fun page_step :: "browser \<Rightarrow> page_event \<Rightarrow> TFLiteClient \<Rightarrow> TFLiteClient" where
  "page_step env (CallInit u) s = snd (init env u s)"
| "page_step env (CallInfer input inputShape) s = snd (infer input inputShape s)"
| "page_step env (WorkerAnswer m) s = handleWorkerMessage m s"
| "page_step env (WorkerFault m) s =
     (case worker s of None \<Rightarrow> s | Some w \<Rightarrow> worker_onerror w m s)"

fun page_run :: "browser \<Rightarrow> page_event list \<Rightarrow> TFLiteClient \<Rightarrow> TFLiteClient" where
  "page_run env [] s = s"
| "page_run env (e # es) s = page_run env es (page_step env e s)"

section \<open>The model loader, call by call (lib/tflite/loadModel)\<close>

text \<open>
  The three module variables of the loader, and the promises that \<^verbatim>\<open>loadModel\<close> made. A
  promise is \<open>Loading\<close> while the load it stands for is in flight.
\<close>

datatype 'm load_state = Loading | Loaded 'm | LoadFailed error

record 'm loader =
  modelInstance :: "'m option"
  isLoading :: bool
  loadPromise :: "nat option"
  load_promises :: "'m load_state list"

text \<open>
  A call of \<^verbatim>\<open>loadModel()\<close> up to its return: \<open>Inl\<close> when it throws, \<open>Inr p\<close> when the
  caller's promise settles as \<open>p\<close> does. A new load runs on to its first \<^verbatim>\<open>await\<close> only.
\<close>

definition loadModel_call ::
  "('m, 't, 'c) tfjs \<Rightarrow> 'm loader \<Rightarrow> (error + nat) \<times> 'm loader" where
  "loadModel_call tf ld =
     (if \<not> tf_window_defined tf
      then (Inl (Error ''Model loading can only occur in browser context''), ld)
      else case modelInstance ld of
             Some m \<Rightarrow>
               (Inr (length (load_promises ld)),
                ld\<lparr>load_promises := load_promises ld @ [Loaded m]\<rparr>)
           | None \<Rightarrow>
               (case loadPromise ld of
                  Some p \<Rightarrow>
                    if isLoading ld then (Inr p, ld)
                    else (Inr (length (load_promises ld)),
                          ld\<lparr>isLoading := True,
                             load_promises := load_promises ld @ [Loading],
                             loadPromise := Some (length (load_promises ld))\<rparr>)
                | None \<Rightarrow>
                    (Inr (length (load_promises ld)),
                     ld\<lparr>isLoading := True,
                        load_promises := load_promises ld @ [Loading],
                        loadPromise := Some (length (load_promises ld))\<rparr>)))"

text \<open>
  The rest of the load behind promise \<open>p\<close>, from its first \<^verbatim>\<open>await\<close> to the end of its
  \<^verbatim>\<open>finally\<close> block.
\<close>

definition loadModel_settles :: "('m, 't, 'c) tfjs \<Rightarrow> nat \<Rightarrow> 'm loader \<Rightarrow> 'm loader" where
  "loadModel_settles tf p ld =
     (let outcome = (case initializeTFJS tf of
                       Inl e \<Rightarrow> Inl e
                     | Inr u \<Rightarrow> tf_loadGraphModel tf)
      in case outcome of
           Inr m \<Rightarrow>
             ld\<lparr>modelInstance := Some m, isLoading := False, loadPromise := None,
                load_promises := (load_promises ld)[p := Loaded m]\<rparr>
         | Inl e \<Rightarrow>
             ld\<lparr>modelInstance := None, isLoading := False, loadPromise := None,
                load_promises :=
                  (load_promises ld)[p := LoadFailed (Error (''Failed to load model: '' @ message e))]\<rparr>)"

text \<open>\<^verbatim>\<open>await loadModel()\<close> with no other code running in between.\<close>

definition loadModel_awaited ::
  "('m, 't, 'c) tfjs \<Rightarrow> 'm loader \<Rightarrow> (error + 'm) \<times> 'm loader" where
  "loadModel_awaited tf ld =
     (case loadModel_call tf ld of
        (Inl e, ld1) \<Rightarrow> (Inl e, ld1)
      | (Inr p, ld1) \<Rightarrow>
          (let ld2 = (if load_promises ld1 ! p = Loading then loadModel_settles tf p ld1 else ld1)
           in case load_promises ld2 ! p of
                Loaded m \<Rightarrow> (Inr m, ld2)
              | LoadFailed e \<Rightarrow> (Inl e, ld2)
              | Loading \<Rightarrow> (Inl (Error ''unsettled''), ld2)))"

fun loadModel_calls ::
  "('m, 't, 'c) tfjs \<Rightarrow> nat \<Rightarrow> 'm loader \<Rightarrow> (error + nat) list \<times> 'm loader" where
  "loadModel_calls tf 0 ld = ([], ld)"
| "loadModel_calls tf (Suc n) ld =
     (let (r, ld1) = loadModel_call tf ld; (rs, ld2) = loadModel_calls tf n ld1
      in (r # rs, ld2))"

section \<open>Concrete inputs\<close>

text \<open>A stored history of one hundred records, newest first, and a record to save.\<close>

definition demo_record :: "nat \<Rightarrow> GradingRecord" where
  "demo_record n =
     \<lparr>id_field = replicate n CHR ''x'', imageUrl = ''u'', predictions = [1], topClass = 0,
      confidence = 1, inferenceTime = 5, timestamp = real n, grade = None\<rparr>"

definition demo_input :: GradingInput where
  "demo_input =
     \<lparr>in_imageUrl = ''new'', in_predictions = [0, 1], in_topClass = 1, in_confidence = 1,
      in_inferenceTime = 3, in_grade = Some ''ripe''\<rparr>"

definition full_storage :: localStorage where
  "full_storage =
     \<lparr>item = Some (History (map demo_record (rev [0..<100]))),
      getItem_throws = False, setItem_throws = False\<rparr>"

definition small_storage :: localStorage where
  "small_storage =
     \<lparr>item = Some (History [demo_record 2, demo_record 1, demo_record 2, demo_record 0]),
      getItem_throws = False, setItem_throws = False\<rparr>"

text \<open>A page whose canvas gives back a two-pixel image, whatever is painted.\<close>

definition demo_document :: document where
  "demo_document =
     \<lparr>getContext_null = False,
      getImageData = (\<lambda>img w h. \<lparr>width = w, height = h,
                                  data = [1, 2, 3, 255, 4, 5, 6, 128]\<rparr>)\<rparr>"

definition demo_image :: ImageData where
  "demo_image = \<lparr>width = 1, height = 1, data = [9, 9, 9, 255]\<rparr>"

text \<open>
  A browser in which workers can be made, and a runtime that loads the model at
  \<^verbatim>\<open>/models/m.tflite\<close> only, fails on an empty input and otherwise gives back the input's
  bytes as numbers.
\<close>

definition demo_browser :: browser where
  "demo_browser = \<lparr>window_defined = True, Worker_throws = None\<rparr>"

definition demo_runtime :: runtime where
  "demo_runtime =
     \<lparr>importScripts_throws = None, createTFLiteModule_defined = True, runtime_aborts = False,
      fetch_model = (\<lambda>u. if u = ''/models/m.tflite'' then FetchResponse True ''OK'' [7, 7, 7]
                          else FetchResponse False ''Not Found'' []),
      loadModel_code = (\<lambda>bytes. 0),
      runInference_code = (\<lambda>input. if input = [] then 1 else 0),
      runInference_output = (\<lambda>input. map (\<lambda>b. real (unat b)) input)\<rparr>"

definition new_page :: "TFLiteClient \<times> worker_globals \<times> nat" where
  "new_page = (new_TFLiteClient, new_worker_globals, 0)"

text \<open>The page after \<^verbatim>\<open>init\<close> and the worker's answer to it: the channel is ready.\<close>

definition ready_page :: "TFLiteClient \<times> worker_globals \<times> nat" where
  "ready_page =
     worker_turn demo_runtime (client_call (init demo_browser ''/models/m.tflite'') new_page)"

text \<open>
  Two \<^verbatim>\<open>infer\<close> calls on the ready channel, \<open>[10, 11]\<close> first and \<open>[20, 21]\<close> second, before
  the worker has answered either.
\<close>

definition two_requests :: "TFLiteClient \<times> worker_globals \<times> nat" where
  "two_requests =
     client_call (infer [20, 21] None) (client_call (infer [10, 11] None) ready_page)"

text \<open>The page after an \<^verbatim>\<open>init\<close> whose model file is not found, and the worker's answer.\<close>

definition failed_page :: "TFLiteClient \<times> worker_globals \<times> nat" where
  "failed_page =
     worker_turn demo_runtime
       (client_call (init demo_browser ''/models/missing.tflite'') new_page)"


text \<open>
  A backend that answers 400 to the image \<^verbatim>\<open>data:bad\<close> and two scores to any other, and
  a browser pipeline that cannot decode \<^verbatim>\<open>data:bad\<close> and gives the same two scores for
  any other image.
\<close>

definition demo_api :: api_env where
  "demo_api =
     \<lparr>api_fetch = (\<lambda>u. if u = ''data:bad'' then Response False 400 BodyInvalid
                         else Response True 200
                                (BodyObject \<lparr>data_predictions = Some [1 / 4, 3 / 4],
                                             data_confidence = Some (3 / 4),
                                             data_inferenceTime = Some 12\<rparr>)),
      api_elapsed = (\<lambda>u. 15)\<rparr>"

definition demo_tf :: "(unit, 8 word list, unit) tfjs" where
  "demo_tf =
     \<lparr>tf_window_defined = True, tf_ready_rejects = None, tf_loadGraphModel = Inr (),
      tf_decode = (\<lambda>u. if u = ''data:bad'' then None else Some demo_image),
      tf_getContext_null = False,
      tf_preprocessImage = (\<lambda>img c. Inr (data img)),
      tf_predict = (\<lambda>m t. Inr (Some [1 / 4, 3 / 4])),
      tf_elapsed = (\<lambda>u. 12)\<rparr>"

section \<open>Properties of the grading history\<close>

lemma getGradingHistory_full_storage:
  "getGradingHistory full_storage = map demo_record (rev [0..<100])"
  by (simp add: getGradingHistory_def getItem_def full_storage_def)

text \<open>
  Claim C7. When the write succeeds, \<open>saveGradingRecord\<close> returns the new record and
  stores the new record followed by the old history, cut to its first hundred entries:
  never more than a hundred; with a hundred records stored before, the last (oldest)
  one is dropped, the new record comes first, the others keep their order, and a
  hundred remain; below a hundred, nothing is dropped.
\<close>

theorem saveGradingRecord_retention:
  fixes input newId now st
  defines "r \<equiv> newRecord input newId now"
  defines "h \<equiv> getGradingHistory st"
  assumes ok: "\<not> setItem_throws st"
  shows "saveGradingRecord input newId now st =
           (Inr r, st\<lparr>item := Some (History (take 100 (r # h)))\<rparr>)
       \<and> length (take 100 (r # h)) \<le> 100
       \<and> (length h = 100 \<longrightarrow>
            take 100 (r # h) = r # butlast h \<and> length (take 100 (r # h)) = 100)
       \<and> (length h < 100 \<longrightarrow> take 100 (r # h) = r # h)"
proof -
  have stored: "saveGradingRecord input newId now st =
      (Inr r, st\<lparr>item := Some (History (take 100 (r # h)))\<rparr>)"
    using ok by (simp add: saveGradingRecord_def setItem_def r_def h_def Let_def)
  have evict: "length h = 100 \<Longrightarrow> take 100 (r # h) = r # butlast h"
    by (simp add: butlast_conv_take take_Cons')
  have keep: "length h < 100 \<Longrightarrow> take 100 (r # h) = r # h"
    by (simp add: take_Cons')
  show ?thesis using stored evict keep by simp
qed

theorem saveGradingRecord_retention_witness:
  "\<not> setItem_throws full_storage \<and> length (getGradingHistory full_storage) = 100
   \<and> getGradingHistory (snd (saveGradingRecord demo_input ''n1'' 100 full_storage))
       = newRecord demo_input ''n1'' 100 # map demo_record (rev [1..<100])
   \<and> length (getGradingHistory (snd (saveGradingRecord demo_input ''n1'' 100 full_storage))) = 100"
proof -
  have ok: "\<not> setItem_throws full_storage" by (simp add: full_storage_def)
  have len: "length (getGradingHistory full_storage) = 100"
    by (simp add: getGradingHistory_full_storage)
  have bl: "butlast (map demo_record (rev [0..<100])) = map demo_record (rev [1..<100])"
    by (simp add: map_butlast[symmetric] upt_conv_Cons[of 0 100] del: upt_Suc)
  note t = saveGradingRecord_retention[OF ok, of demo_input "''n1''" 100]
  from t len have "snd (saveGradingRecord demo_input ''n1'' 100 full_storage)
      = full_storage\<lparr>item := Some (History
          (newRecord demo_input ''n1'' 100 # butlast (getGradingHistory full_storage)))\<rparr>"
    by simp
  then show ?thesis using ok len
    by (simp add: getGradingHistory_def getItem_def getGradingHistory_full_storage bl
        full_storage_def)
qed

text \<open>
  Claim C10. \<open>deleteGradingRecord\<close> never throws. The records whose id is not the given
  one are the same, in the same order, before and after. When the write succeeds the
  history read back is the old one without the records of the given id. When no stored
  record has the given id, the history read back is the old one.
\<close>

theorem deleteGradingRecord_frame:
  fixes i st
  defines "st' \<equiv> snd (deleteGradingRecord i st)"
  defines "keep \<equiv> (\<lambda>record. id_field record \<noteq> i)"
  shows "fst (deleteGradingRecord i st) = Inr ()
       \<and> filter keep (getGradingHistory st') = filter keep (getGradingHistory st)
       \<and> (\<not> setItem_throws st \<longrightarrow> getGradingHistory st' = filter keep (getGradingHistory st))
       \<and> (i \<notin> id_field ` set (getGradingHistory st) \<longrightarrow>
            getGradingHistory st' = getGradingHistory st)"
proof -
  have absent: "i \<notin> id_field ` set (getGradingHistory st) \<Longrightarrow>
      filter keep (getGradingHistory st) = getGradingHistory st"
    by (auto simp: keep_def filter_id_conv)
  show ?thesis
  proof (cases "setItem_throws st")
    case True
    then have "deleteGradingRecord i st = (Inr (), st)"
      by (simp add: deleteGradingRecord_def setItem_def Let_def)
    then show ?thesis using True by (simp add: st'_def)
  next
    case False
    then have written: "deleteGradingRecord i st =
        (Inr (), st\<lparr>item := Some (History (filter keep (getGradingHistory st)))\<rparr>)"
      by (simp add: deleteGradingRecord_def setItem_def Let_def keep_def)
    have "getGradingHistory st' = filter keep (getGradingHistory st)"
      unfolding st'_def written by (simp add: getGradingHistory_def getItem_def)
    then show ?thesis using written absent False by simp
  qed
qed

theorem deleteGradingRecord_frame_witness:
  "\<not> setItem_throws small_storage
   \<and> fst (deleteGradingRecord ''xx'' small_storage) = Inr ()
   \<and> getGradingHistory (snd (deleteGradingRecord ''xx'' small_storage))
       = [demo_record 1, demo_record 0]
   \<and> ''xxxxx'' \<notin> id_field ` set (getGradingHistory small_storage)
   \<and> getGradingHistory (snd (deleteGradingRecord ''xxxxx'' small_storage))
       = [demo_record 2, demo_record 1, demo_record 2, demo_record 0]"
proof -
  have h: "getGradingHistory small_storage =
      [demo_record 2, demo_record 1, demo_record 2, demo_record 0]"
    by (simp add: getGradingHistory_def getItem_def small_storage_def)
  have ok: "\<not> setItem_throws small_storage" by (simp add: small_storage_def)
  have ids: "id_field (demo_record 2) = ''xx''" "id_field (demo_record (Suc 0)) = ''x''"
    "id_field (demo_record 0) = ''''"
    by (simp_all add: demo_record_def numeral_2_eq_2)
  show ?thesis
    using deleteGradingRecord_frame[of "''xx''" small_storage]
      deleteGradingRecord_frame[of "''xxxxx''" small_storage] ok
    by (simp add: h ids)
qed

section \<open>Properties of the tensor conversion\<close>

lemma length_rgb_loop: "length (rgb_loop d i r buf) = length buf"
proof (induction d i r buf rule: rgb_loop.induct)
  case (1 d i r buf)
  show ?case
  proof (cases "i < length d")
    case True
    then show ?thesis using 1 by (subst rgb_loop.simps) simp
  next
    case False
    then show ?thesis by (subst rgb_loop.simps) simp
  qed
qed

text \<open>
  The loop's invariant: once \<open>k\<close> pixels are done, the entries from \<open>3 * k\<close> on will be
  written from the colour bytes of their pixels, and the entries before stay.
\<close>

lemma rgb_loop_nth:
  assumes "length d = 4 * n" "length buf = 3 * n" "k \<le> n" "j < 3 * n"
  shows "rgb_loop d (4 * k) (3 * k) buf ! j =
           (if 3 * k \<le> j then d ! (4 * (j div 3) + j mod 3) else buf ! j)"
  using assms
proof (induction "n - k" arbitrary: k buf)
  case 0
  then have "k = n" by simp
  with 0 show ?case by (subst rgb_loop.simps) simp
next
  case (Suc m)
  then have kn: "k < n" by simp
  let ?buf' = "buf[3 * k := read_u8 d (4 * k), 3 * k + 1 := read_u8 d (4 * k + 1),
                   3 * k + 2 := read_u8 d (4 * k + 2)]"
  have step: "rgb_loop d (4 * k) (3 * k) buf = rgb_loop d (4 * Suc k) (3 * Suc k) ?buf'"
    using kn Suc.prems(1) by (subst rgb_loop.simps) (simp add: algebra_simps)
  have ih: "rgb_loop d (4 * Suc k) (3 * Suc k) ?buf' ! j =
      (if 3 * Suc k \<le> j then d ! (4 * (j div 3) + j mod 3) else ?buf' ! j)"
    using Suc.hyps(1)[of "Suc k" ?buf'] Suc.hyps(2) Suc.prems kn by simp
  have rd: "\<And>c. c < 3 \<Longrightarrow> read_u8 d (4 * k + c) = d ! (4 * k + c)"
    using kn Suc.prems(1) by (simp add: read_u8_def)
  have dm: "\<And>c. c < 3 \<Longrightarrow> (3 * k + c) div 3 = k \<and> (3 * k + c) mod 3 = c"
    by auto
  consider "j < 3 * k" | "j = 3 * k" | "j = 3 * k + 1" | "j = 3 * k + 2" | "3 * Suc k \<le> j"
    by force
  then show ?case
  proof cases
    case 1 then show ?thesis unfolding step ih by simp
  next
    case 2 then show ?thesis unfolding step ih using Suc.prems kn rd[of 0] dm[of 0] by simp
  next
    case 3 then show ?thesis unfolding step ih using Suc.prems kn rd[of 1] dm[of 1] by simp
  next
    case 4 then show ?thesis unfolding step ih using Suc.prems kn rd[of 2] dm[of 2] by simp
  next
    case 5 then show ?thesis unfolding step ih by simp
  qed
qed

text \<open>
  Claim C6. With a 2d context and a width and height that are not zero,
  \<open>imageDataToTensor\<close> produces a buffer. Every buffer it produces has length
  \<open>width * height * 3\<close>; and when the resized image has its four bytes per pixel, the
  entries \<open>3 * k\<close>, \<open>3 * k + 1\<close> and \<open>3 * k + 2\<close> of the buffer are the bytes \<open>4 * k\<close>,
  \<open>4 * k + 1\<close> and \<open>4 * k + 2\<close> of the resized image, the red, green and blue of pixel
  \<open>k\<close>. No entry is read from a position \<open>4 * k + 3\<close>, where the alpha bytes are.
\<close>

theorem imageDataToTensor_shape:
  fixes doc imageData w h
  defines "resized \<equiv> data (getImageData doc imageData w h)"
  shows "(\<not> getContext_null doc \<and> 0 < w \<and> 0 < h \<longrightarrow>
            (\<exists>t. imageDataToTensor doc imageData w h = Inr t))
       \<and> (\<forall>t. imageDataToTensor doc imageData w h = Inr t \<longrightarrow>
            length t = w * h * 3
          \<and> (length resized = 4 * (w * h) \<longrightarrow>
               (\<forall>k < w * h. t ! (3 * k) = resized ! (4 * k)
                          \<and> t ! (3 * k + 1) = resized ! (4 * k + 1)
                          \<and> t ! (3 * k + 2) = resized ! (4 * k + 2))
             \<and> (\<forall>j < w * h * 3. t ! j = resized ! (4 * (j div 3) + j mod 3)
                          \<and> (4 * (j div 3) + j mod 3) mod 4 \<noteq> 3)))"
proof -
  have total: "\<not> getContext_null doc \<and> 0 < w \<and> 0 < h \<longrightarrow>
      (\<exists>t. imageDataToTensor doc imageData w h = Inr t)"
    by (simp add: imageDataToTensor_def Let_def)
  have shape: "length t = w * h * 3
          \<and> (length resized = 4 * (w * h) \<longrightarrow>
               (\<forall>k < w * h. t ! (3 * k) = resized ! (4 * k)
                          \<and> t ! (3 * k + 1) = resized ! (4 * k + 1)
                          \<and> t ! (3 * k + 2) = resized ! (4 * k + 2))
             \<and> (\<forall>j < w * h * 3. t ! j = resized ! (4 * (j div 3) + j mod 3)
                          \<and> (4 * (j div 3) + j mod 3) mod 4 \<noteq> 3))"
    if produced: "imageDataToTensor doc imageData w h = Inr t" for t
  proof -
    let ?zeros = "replicate (w * h * 3) (0 :: 8 word)"
    have t: "t = rgb_loop resized 0 0 ?zeros"
      using produced
      by (simp add: imageDataToTensor_def resized_def Let_def split: if_splits)
    have len: "length t = w * h * 3"
      by (simp add: t length_rgb_loop)
    have entries: "t ! j = resized ! (4 * (j div 3) + j mod 3)"
      if wf: "length resized = 4 * (w * h)" and j: "j < w * h * 3" for j
      using rgb_loop_nth[of resized "w * h" ?zeros 0 j] wf j by (simp add: t)
    have colour: "(4 * (j div 3) + j mod 3) mod 4 \<noteq> 3" for j :: nat
    proof -
      have "(4 * (j div 3) + j mod 3) mod 4 = j mod 3"
        by simp
      then show ?thesis by simp
    qed
    have triple: "t ! (3 * k) = resized ! (4 * k) \<and> t ! (3 * k + 1) = resized ! (4 * k + 1)
        \<and> t ! (3 * k + 2) = resized ! (4 * k + 2)"
      if wf: "length resized = 4 * (w * h)" and k: "k < w * h" for k
    proof -
      have dm: "(3 * k + c) div 3 = k \<and> (3 * k + c) mod 3 = c" if "c < 3" for c
        using that by auto
      show ?thesis
        using entries[OF wf, of "3 * k"] entries[OF wf, of "3 * k + 1"]
          entries[OF wf, of "3 * k + 2"] k dm[of 0] dm[of 1] dm[of 2]
        by simp
    qed
    show ?thesis using len entries colour triple by blast
  qed
  show ?thesis using total shape by blast
qed

theorem imageDataToTensor_shape_witness:
  "\<not> getContext_null demo_document
   \<and> length (data (getImageData demo_document demo_image 2 1)) = 4 * (2 * 1)
   \<and> imageDataToTensor demo_document demo_image 2 1 = Inr [1, 2, 3, 4, 5, 6]
   \<and> length [1, 2, 3, 4, 5, 6 :: 8 word] = 2 * 1 * 3"
proof -
  have ev: "imageDataToTensor demo_document demo_image 2 1 = Inr [1, 2, 3, 4, 5, 6]"
    by (simp add: imageDataToTensor_def demo_document_def Let_def rgb_loop.simps read_u8_def
        numeral_eq_Suc)
  show ?thesis
    using imageDataToTensor_shape[of demo_document 2 1 demo_image] ev
    by (simp add: demo_document_def)
qed

section \<open>Properties of the worker channel\<close>

subsection \<open>Evaluating the concrete pages\<close>

lemmas page_defs =
  ready_page_def new_page_def worker_turn_def client_call_def init_def infer_def
  demo_browser_def demo_runtime_def new_TFLiteClient_def new_worker_globals_def
  new_promise_def console_log_def console_warn_def console_error_def postMessage_def
  onmessage_def loadTFLiteWasm_def worker_loadModel_def worker_runInference_def
  handleWorkerMessage_def settle_def terminate_def Let_def show_int_def show_nat.simps

lemma ready_client:
  "ready_page =
     (\<lparr>worker = Some 0, isInitialized = True, initPromise = Some 0, inferenceCallbacks = [],
       messageId = 0, promises = [Fulfilled None],
       workers = [\<lparr>terminated = False, posted = [InitMessage ''/models/m.tflite''],
                   onerror_promise = 0\<rparr>],
       console = [Log ''[TFLiteClient] Creating worker...'',
                  Log ''[TFLiteClient] Sending init message with model:'',
                  Log ''[TFLiteClient] Initialized successfully'']\<rparr>,
      \<lparr>w_tfliteModule = True, w_isInitialized = True, w_modelLoaded = True\<rparr>, 1)"
  by (simp add: page_defs)

lemmas turn_defs =
  client_call_def worker_turn_def infer_def new_promise_def console_log_def console_warn_def
  console_error_def postMessage_def onmessage_def worker_runInference_def
  handleWorkerMessage_def settle_def demo_runtime_def Let_def show_int_def show_nat.simps

lemma busy_client:
  "fst (client_call (infer [1, 2] None) ready_page) =
     \<lparr>worker = Some 0, isInitialized = True, initPromise = Some 0,
      inferenceCallbacks = [(1, InferCallback 1)], messageId = 1,
      promises = [Fulfilled None, Pending],
      workers = [\<lparr>terminated = False,
                  posted = [InitMessage ''/models/m.tflite'',
                            InferMessage [1, 2] [1, 224, 224, 3]],
                  onerror_promise = 0\<rparr>],
      console = [Log ''[TFLiteClient] Creating worker...'',
                 Log ''[TFLiteClient] Sending init message with model:'',
                 Log ''[TFLiteClient] Initialized successfully'',
                 Log ''[TFLiteClient] Sending inference request, input size:'']\<rparr>"
  by (simp add: page_defs)

subsection \<open>What the steps keep\<close>

lemma settle_fields [simp]:
  "worker (settle p v s) = worker s" "isInitialized (settle p v s) = isInitialized s"
  "initPromise (settle p v s) = initPromise s"
  "inferenceCallbacks (settle p v s) = inferenceCallbacks s"
  "messageId (settle p v s) = messageId s" "workers (settle p v s) = workers s"
  "length (promises (settle p v s)) = length (promises s)"
  by (simp_all add: settle_def)

lemma settle_nth:
  "q < length (promises s) \<Longrightarrow>
     promises (settle p v s) ! q = (if q = p \<and> promises s ! p = Pending then v else promises s ! q)"
  by (auto simp: settle_def)

lemma reject_callback_fields [simp]:
  "worker (reject_callback cb e s) = worker s"
  "isInitialized (reject_callback cb e s) = isInitialized s"
  "initPromise (reject_callback cb e s) = initPromise s"
  "inferenceCallbacks (reject_callback cb e s) = inferenceCallbacks s"
  "messageId (reject_callback cb e s) = messageId s"
  "workers (reject_callback cb e s) = workers s"
  "length (promises (reject_callback cb e s)) = length (promises s)"
  by (cases cb; simp add: console_error_def)+


text \<open>The \<^verbatim>\<open>forEach\<close> that rejects every stored callback touches the promises only.\<close>

lemma reject_all_fields:
  "worker (fold (\<lambda>(k, cb). reject_callback cb e) cbs s) = worker s
   \<and> isInitialized (fold (\<lambda>(k, cb). reject_callback cb e) cbs s) = isInitialized s
   \<and> initPromise (fold (\<lambda>(k, cb). reject_callback cb e) cbs s) = initPromise s
   \<and> inferenceCallbacks (fold (\<lambda>(k, cb). reject_callback cb e) cbs s) = inferenceCallbacks s
   \<and> messageId (fold (\<lambda>(k, cb). reject_callback cb e) cbs s) = messageId s
   \<and> workers (fold (\<lambda>(k, cb). reject_callback cb e) cbs s) = workers s
   \<and> length (promises (fold (\<lambda>(k, cb). reject_callback cb e) cbs s)) = length (promises s)"
  by (induction cbs arbitrary: s) (auto simp: case_prod_beta)


lemma resolve_callback_initPromise [simp]:
  "initPromise (resolve_callback cb r s) = initPromise s"
  by (cases cb) (simp_all add: console_log_def)

lemma handleWorkerMessage_initPromise:
  "initPromise (handleWorkerMessage msg s) = initPromise s"
proof (cases msg)
  case (ErrorMessage err)
  then show ?thesis using reject_all_fields[of "Error err" "inferenceCallbacks s"
        "console_error ''[TFLiteClient] Worker error:'' s"]
    by (simp add: handleWorkerMessage_def console_error_def Let_def)
next
  case (ResultMessage out t)
  then show ?thesis
    by (auto simp: handleWorkerMessage_def console_warn_def console_log_def Let_def
        split: option.splits)
qed

lemma resolve_callback_kept [simp]:
  "workers (resolve_callback cb r s) = workers s"
  "inferenceCallbacks (resolve_callback cb r s) = inferenceCallbacks s"
  by (cases cb; simp add: console_log_def)+

lemma resolve_callback_nth:
  "q < length (promises s) \<Longrightarrow> q \<noteq> callback_promise cb \<Longrightarrow>
     promises (resolve_callback cb r s) ! q = promises s ! q"
  by (cases cb) (auto simp: settle_nth console_log_def callback_promise_def)

lemma handleWorkerMessage_workers: "workers (handleWorkerMessage msg s) = workers s"
proof (cases msg)
  case (ErrorMessage err)
  then show ?thesis
    using reject_all_fields[of "Error err" "inferenceCallbacks s"
        "console_error ''[TFLiteClient] Worker error:'' s"]
    by (simp add: handleWorkerMessage_def console_error_def Let_def)
next
  case (ResultMessage out t)
  then show ?thesis
    by (auto simp: handleWorkerMessage_def console_warn_def console_log_def Let_def
        split: option.splits)
qed

lemma infer_initPromise: "initPromise (snd (infer input inputShape s)) = initPromise s"
  by (auto simp: infer_def new_promise_def console_log_def postMessage_def Let_def
      split: option.splits)

lemma infer_workers_length:
  "length (workers (snd (infer input inputShape s))) = length (workers s)"
  by (auto simp: infer_def new_promise_def console_log_def postMessage_def Let_def
      split: option.splits)

lemma worker_onerror_kept:
  "initPromise (worker_onerror w m s) = initPromise s"
  "workers (worker_onerror w m s) = workers s"
  by (simp_all add: worker_onerror_def console_error_def)

subsection \<open>Initialisation\<close>

lemma init_existing_promise: "initPromise s = Some p \<Longrightarrow> init env u s = (Inr p, s)"
  by (simp add: init_def)

lemma init_first:
  assumes "window_defined env" "initPromise s = None" "\<not> isInitialized s"
  shows "fst (init env u s) = Inr (length (promises s))"
    and "initPromise (snd (init env u s)) = Some (length (promises s))"
    and "promises (snd (init env u s)) =
           promises s @ [case Worker_throws env of None \<Rightarrow> Pending | Some e \<Rightarrow> Rejected e]"
    and "workers (snd (init env u s)) =
           workers s @ (case Worker_throws env of
                          None \<Rightarrow> [\<lparr>terminated = False, posted = [InitMessage u],
                                    onerror_promise = length (promises s)\<rparr>]
                        | Some e \<Rightarrow> [])"
  using assms
  by (auto simp: init_def new_promise_def console_log_def console_error_def settle_def
      postMessage_def Let_def nth_append split: option.splits)

lemma init_calls_existing:
  "initPromise s = Some p \<Longrightarrow> init_calls env us s = (replicate (length us) (Inr p), s)"
  by (induction us) (simp_all add: init_existing_promise)

text \<open>
  Once \<open>init\<close> has stored a promise, no call of \<open>init\<close> or \<open>infer\<close> and no event of the
  worker replaces it or makes another worker: every later \<open>init\<close> returns that promise
  and does nothing else.
\<close>

lemma page_step_kept:
  assumes "initPromise s = Some p"
  shows "initPromise (page_step env e s) = Some p"
    and "length (workers (page_step env e s)) = length (workers s)"
  using assms
  by (cases e; simp add: init_existing_promise infer_initPromise infer_workers_length
        handleWorkerMessage_initPromise handleWorkerMessage_workers worker_onerror_kept
        split: option.splits)+

lemma page_run_kept:
  assumes "initPromise s = Some p"
  shows "initPromise (page_run env es s) = Some p
       \<and> length (workers (page_run env es s)) = length (workers s)
       \<and> init env u (page_run env es s) = (Inr p, page_run env es s)"
  using assms
proof (induction es arbitrary: s)
  case Nil
  then show ?case by (simp add: init_existing_promise)
next
  case (Cons e es)
  have kept: "initPromise (page_step env e s) = Some p"
    using page_step_kept(1)[OF Cons.prems] .
  show ?case
    using Cons.IH[OF kept] page_step_kept(2)[OF Cons.prems, of env e] by simp
qed

text \<open>
  Claim C2. In a browser, on a client that is not initialised and has no
  initialisation promise, any number of \<open>init\<close> calls in a row all return the same
  promise, the one that the first call made, and leave the client as the first call
  left it: one promise was added, and one worker with one \<open>InitMessage\<close> posted to it
  (or none, and the promise already rejected, when no worker can be made). The same
  holds with calls of \<open>infer\<close> and events of the worker in between: after any such
  history \<open>init\<close> still returns that promise, changes nothing, and there is no further
  worker. Holding the same promise, all callers see the same outcome.
\<close>

theorem init_coalescing:
  fixes env u us s es u'
  defines "p \<equiv> length (promises s)"
  defines "s1 \<equiv> snd (init env u s)"
  assumes "window_defined env" "initPromise s = None" "\<not> isInitialized s"
  shows "init_calls env (u # us) s = (replicate (Suc (length us)) (Inr p), s1)
       \<and> initPromise s1 = Some p
       \<and> promises s1 =
           promises s @ [case Worker_throws env of None \<Rightarrow> Pending | Some e \<Rightarrow> Rejected e]
       \<and> workers s1 =
           workers s @ (case Worker_throws env of
                          None \<Rightarrow> [\<lparr>terminated = False, posted = [InitMessage u],
                                    onerror_promise = p\<rparr>]
                        | Some e \<Rightarrow> [])
       \<and> init env u' (page_run env es s1) = (Inr p, page_run env es s1)
       \<and> length (workers (page_run env es s1)) = length (workers s1)"
proof -
  obtain r where i: "init env u s = (r, s1)" by (cases "init env u s") (simp add: s1_def)
  have r: "r = Inr p" and ip: "initPromise s1 = Some p"
    using init_first(1,2)[OF assms(3-5), of u] i by (simp_all add: p_def)
  have row: "init_calls env (u # us) s = (replicate (Suc (length us)) (Inr p), s1)"
    using i r init_calls_existing[OF ip, of env us] by simp
  have made: "promises s1 =
      promises s @ [case Worker_throws env of None \<Rightarrow> Pending | Some e \<Rightarrow> Rejected e]"
    "workers s1 =
      workers s @ (case Worker_throws env of
                     None \<Rightarrow> [\<lparr>terminated = False, posted = [InitMessage u],
                               onerror_promise = length (promises s)\<rparr>]
                   | Some e \<Rightarrow> [])"
    using init_first(3,4)[OF assms(3-5), of u] by (simp_all add: s1_def)
  show ?thesis
    unfolding p_def using row ip made page_run_kept[OF ip, of env es u'] by (simp add: p_def)
qed

theorem init_coalescing_witness:
  "window_defined demo_browser \<and> initPromise new_TFLiteClient = None
   \<and> \<not> isInitialized new_TFLiteClient
   \<and> fst (init_calls demo_browser [''/models/m.tflite'', ''/models/a'', ''/models/b'']
            new_TFLiteClient) = [Inr 0, Inr 0, Inr 0]
   \<and> workers (snd (init_calls demo_browser [''/models/m.tflite'', ''/models/a'', ''/models/b'']
            new_TFLiteClient))
       = [\<lparr>terminated = False, posted = [InitMessage ''/models/m.tflite''], onerror_promise = 0\<rparr>]
   \<and> promises (snd (init_calls demo_browser [''/models/m.tflite'', ''/models/a'', ''/models/b'']
            new_TFLiteClient)) = [Pending]
   \<and> fst (init demo_browser ''/models/c''
            (page_run demo_browser
               [CallInit ''/models/a'', WorkerAnswer (ResultMessage (Some [1]) 0),
                CallInfer [1, 2] None, CallInit ''/models/b'']
               (snd (init demo_browser ''/models/m.tflite'' new_TFLiteClient)))) = Inr 0"
proof -
  have pre: "window_defined demo_browser" "initPromise new_TFLiteClient = None"
    "\<not> isInitialized new_TFLiteClient"
    by (simp_all add: demo_browser_def new_TFLiteClient_def)
  have fresh: "Worker_throws demo_browser = None" "promises new_TFLiteClient = []"
    "workers new_TFLiteClient = []"
    by (simp_all add: demo_browser_def new_TFLiteClient_def)
  note t = init_coalescing[OF pre, where u = "''/models/m.tflite''"
      and us = "[''/models/a'', ''/models/b'']" and u' = "''/models/c''"
      and es = "[CallInit ''/models/a'', WorkerAnswer (ResultMessage (Some [1]) 0),
                 CallInfer [1, 2] None, CallInit ''/models/b'']"]
  from t have calls:
    "init_calls demo_browser [''/models/m.tflite'', ''/models/a'', ''/models/b''] new_TFLiteClient
       = ([Inr 0, Inr 0, Inr 0], snd (init demo_browser ''/models/m.tflite'' new_TFLiteClient))"
    by (simp add: fresh del: init_calls.simps page_run.simps)
  from t have made:
    "workers (snd (init demo_browser ''/models/m.tflite'' new_TFLiteClient))
       = [\<lparr>terminated = False, posted = [InitMessage ''/models/m.tflite''], onerror_promise = 0\<rparr>]"
    "promises (snd (init demo_browser ''/models/m.tflite'' new_TFLiteClient)) = [Pending]"
    by (simp_all add: fresh del: init_calls.simps page_run.simps)
  from t have later:
    "fst (init demo_browser ''/models/c''
            (page_run demo_browser
               [CallInit ''/models/a'', WorkerAnswer (ResultMessage (Some [1]) 0),
                CallInfer [1, 2] None, CallInit ''/models/b'']
               (snd (init demo_browser ''/models/m.tflite'' new_TFLiteClient)))) = Inr 0"
    by (simp add: fresh del: init_calls.simps page_run.simps)
  show ?thesis
    using pre later by (simp add: calls made del: init_calls.simps page_run.simps)
qed

text \<open>
  Whatever the worker answers, once \<open>init\<close> has stored a promise every later \<open>init\<close>
  returns that promise and does nothing else.
\<close>

lemma init_after_message:
  "initPromise s = Some p \<Longrightarrow>
     init env u (handleWorkerMessage msg s) = (Inr p, handleWorkerMessage msg s)"
  by (simp add: init_existing_promise handleWorkerMessage_initPromise)

text \<open>
  Claim C3 fails on the code. The model file of the first \<open>init\<close> is not found: the
  worker answers with an error, the promise is rejected and the map emptied, but
  \<open>initPromise\<close> keeps the rejected promise. A second \<open>init\<close>, with the URL of a model
  that would load, returns that same rejected promise and leaves the client as it was:
  no worker is made and no message posted.
\<close>

theorem init_retry_returns_failed_promise:
  "promises (fst failed_page) = [Rejected (Error ''Failed to fetch model: Not Found'')]
   \<and> \<not> isInitialized (fst failed_page) \<and> initPromise (fst failed_page) = Some 0
   \<and> inferenceCallbacks (fst failed_page) = []
   \<and> init demo_browser ''/models/m.tflite'' (fst failed_page) = (Inr 0, fst failed_page)
   \<and> workers (fst failed_page) =
        [\<lparr>terminated = False, posted = [InitMessage ''/models/missing.tflite''],
          onerror_promise = 0\<rparr>]"
  by (simp add: failed_page_def page_defs)

subsection \<open>The guard of infer, and teardown\<close>

text \<open>
  Claim C9. On a client that is not ready (\<open>isInitialized\<close> is false or there is no
  worker), \<open>infer\<close> is rejected at once with the error
  \<^verbatim>\<open>TFLiteClient not initialized. Call init() first.\<close>, whose text contains
  \<^verbatim>\<open>not initialized\<close>; no promise is made and nothing is posted: the client is unchanged.
\<close>

theorem infer_not_initialized:
  assumes "\<not> isInitialized s \<or> worker s = None"
  shows "infer input inputShape s =
           (Inl (Error ''TFLiteClient not initialized. Call init() first.''), s)
       \<and> sublist ''not initialized''
           (message (Error ''TFLiteClient not initialized. Call init() first.''))"
proof -
  have "''TFLiteClient not initialized. Call init() first.'' =
      ''TFLiteClient '' @ ''not initialized'' @ ''. Call init() first.''"
    by simp
  then have "sublist ''not initialized'' ''TFLiteClient not initialized. Call init() first.''"
    unfolding sublist_def by blast
  then show ?thesis using assms by (auto simp: infer_def split: option.splits)
qed

theorem infer_not_initialized_witness:
  "\<not> isInitialized (snd (init demo_browser ''/models/m.tflite'' new_TFLiteClient))
   \<and> worker (snd (init demo_browser ''/models/m.tflite'' new_TFLiteClient)) = Some 0
   \<and> infer [1, 2, 3] None (snd (init demo_browser ''/models/m.tflite'' new_TFLiteClient)) =
       (Inl (Error ''TFLiteClient not initialized. Call init() first.''),
        snd (init demo_browser ''/models/m.tflite'' new_TFLiteClient))"
proof -
  have a: "\<not> isInitialized (snd (init demo_browser ''/models/m.tflite'' new_TFLiteClient))"
    and b: "worker (snd (init demo_browser ''/models/m.tflite'' new_TFLiteClient)) = Some 0"
    by (simp_all add: page_defs)
  show ?thesis
    using infer_not_initialized[of "snd (init demo_browser ''/models/m.tflite'' new_TFLiteClient)"
        "[1, 2, 3]" None] a b
    by simp
qed

text \<open>
  What teardown does. After \<open>terminate\<close> the client has no worker, is not initialised,
  has no initialisation promise and no stored callback, and the worker it had is
  terminated; the promises are as they were (the stored callbacks are dropped, not
  called). A second \<open>terminate\<close> changes nothing. In a browser that can make workers,
  \<open>init\<close> after \<open>terminate\<close> makes a new promise and a new worker, posts the
  \<open>InitMessage\<close> to it and stores the new callback under key 0.
\<close>

theorem terminate_idempotent:
  fixes s env url
  defines "t \<equiv> terminate s"
  shows "terminate t = t
       \<and> worker t = None \<and> \<not> isInitialized t \<and> initPromise t = None
       \<and> inferenceCallbacks t = []
       \<and> promises t = promises s \<and> messageId t = messageId s
       \<and> length (workers t) = length (workers s)
       \<and> (\<forall>w. worker s = Some w \<and> w < length (workers s) \<longrightarrow> terminated (workers t ! w))
       \<and> (window_defined env \<and> Worker_throws env = None \<longrightarrow>
            fst (init env url t) = Inr (length (promises s))
          \<and> worker (snd (init env url t)) = Some (length (workers s))
          \<and> workers (snd (init env url t)) =
              workers t @ [\<lparr>terminated = False, posted = [InitMessage url],
                            onerror_promise = length (promises s)\<rparr>]
          \<and> promises (snd (init env url t)) = promises s @ [Pending]
          \<and> initPromise (snd (init env url t)) = Some (length (promises s))
          \<and> inferenceCallbacks (snd (init env url t)) = [(0, InitCallback (length (promises s)))]
          \<and> \<not> isInitialized (snd (init env url t)))"
proof -
  have reset: "worker t = None" "\<not> isInitialized t" "initPromise t = None"
    "inferenceCallbacks t = []" "promises t = promises s" "messageId t = messageId s"
    "length (workers t) = length (workers s)"
    by (auto simp: t_def terminate_def console_log_def Let_def split: option.splits)
  have again: "terminate t = t"
    using reset by (simp add: terminate_def)
  have released: "\<forall>w. worker s = Some w \<and> w < length (workers s) \<longrightarrow>
      terminated (workers t ! w)"
    by (auto simp: t_def terminate_def console_log_def Let_def)
  have fresh: "window_defined env \<and> Worker_throws env = None \<longrightarrow>
            fst (init env url t) = Inr (length (promises s))
          \<and> worker (snd (init env url t)) = Some (length (workers s))
          \<and> workers (snd (init env url t)) =
              workers t @ [\<lparr>terminated = False, posted = [InitMessage url],
                            onerror_promise = length (promises s)\<rparr>]
          \<and> promises (snd (init env url t)) = promises s @ [Pending]
          \<and> initPromise (snd (init env url t)) = Some (length (promises s))
          \<and> inferenceCallbacks (snd (init env url t)) = [(0, InitCallback (length (promises s)))]
          \<and> \<not> isInitialized (snd (init env url t))"
    using reset
    by (auto simp: init_def new_promise_def console_log_def postMessage_def Let_def nth_append)
  show ?thesis using reset again released fresh by blast
qed

theorem terminate_idempotent_witness:
  "worker (fst (client_call (infer [1, 2] None) ready_page)) = Some 0
   \<and> 0 < length (workers (fst (client_call (infer [1, 2] None) ready_page)))
   \<and> terminated (workers (terminate (fst (client_call (infer [1, 2] None) ready_page))) ! 0)
   \<and> terminate (terminate (fst (client_call (infer [1, 2] None) ready_page)))
       = terminate (fst (client_call (infer [1, 2] None) ready_page))
   \<and> inferenceCallbacks (terminate (fst (client_call (infer [1, 2] None) ready_page))) = []
   \<and> window_defined demo_browser \<and> Worker_throws demo_browser = None
   \<and> fst (init demo_browser ''/models/m.tflite''
            (terminate (fst (client_call (infer [1, 2] None) ready_page)))) = Inr 2
   \<and> worker (snd (init demo_browser ''/models/m.tflite''
            (terminate (fst (client_call (infer [1, 2] None) ready_page))))) = Some 1"
proof -
  have env: "window_defined demo_browser" "Worker_throws demo_browser = None"
    by (simp_all add: demo_browser_def)
  show ?thesis
    using terminate_idempotent[of "fst (client_call (infer [1, 2] None) ready_page)"
        demo_browser "''/models/m.tflite''"] env
    by (simp add: busy_client)
qed

text \<open>
  Claim C8 fails on the code. On the ready channel with one \<open>infer\<close> pending,
  \<open>terminate\<close> empties the callbacks map without calling the stored \<open>reject\<close>: the
  promise of the pending request is pending before and after. Nothing later settles
  it, since its callback is gone: not a second \<open>terminate\<close>, not a new \<open>init\<close> with
  its worker's answer. On the same client the error branch of \<open>handleWorkerMessage\<close>
  rejects that promise before it empties the map.
\<close>

theorem terminate_leaves_request_pending:
  "inferenceCallbacks (fst (client_call (infer [1, 2] None) ready_page)) = [(1, InferCallback 1)]
   \<and> promises (fst (client_call (infer [1, 2] None) ready_page)) = [Fulfilled None, Pending]
   \<and> inferenceCallbacks (terminate (fst (client_call (infer [1, 2] None) ready_page))) = []
   \<and> promises (terminate (fst (client_call (infer [1, 2] None) ready_page)))
       = [Fulfilled None, Pending]
   \<and> promises (terminate (terminate (fst (client_call (infer [1, 2] None) ready_page))))
       = [Fulfilled None, Pending]
   \<and> promises (handleWorkerMessage (ResultMessage (Some [1]) 0)
        (snd (init demo_browser ''/models/m.tflite''
           (terminate (fst (client_call (infer [1, 2] None) ready_page))))))
       = [Fulfilled None, Pending, Fulfilled None]
   \<and> promises (handleWorkerMessage (ErrorMessage ''abort'')
        (fst (client_call (infer [1, 2] None) ready_page)))
       = [Fulfilled None, Rejected (Error ''abort'')]"
  by (simp add: busy_client page_defs)

subsection \<open>Worker errors\<close>




subsection \<open>Two requests in flight\<close>

text \<open>
  Claim C1 fails on the code. Two \<open>infer\<close> calls get the promises 1 and 2 and the keys 1
  and 2. The worker answers the first request, with the output \<open>[10, 11]\<close> of the first
  input; the handler looks up the current \<open>messageId\<close>, which is 2, and fulfils the
  second caller's promise with it. The worker's answer to the second request then finds
  no callback under key 2 and is dropped with a warning. The first caller's promise
  stays pending and its callback stays in the map.
\<close>

theorem infer_results_misattributed:
  "fst (infer [10, 11] None (fst ready_page)) = Inr 1
   \<and> fst (infer [20, 21] None (fst (client_call (infer [10, 11] None) ready_page))) = Inr 2
   \<and> inferenceCallbacks (fst two_requests) = [(1, InferCallback 1), (2, InferCallback 2)]
   \<and> posted (workers (fst two_requests) ! 0) =
       [InitMessage ''/models/m.tflite'', InferMessage [10, 11] [1, 224, 224, 3],
        InferMessage [20, 21] [1, 224, 224, 3]]
   \<and> promises (fst (worker_turn demo_runtime two_requests)) =
       [Fulfilled None, Pending,
        Fulfilled (Some \<lparr>output_data = [10, 11], inferenceTimeMs = 0\<rparr>)]
   \<and> promises (fst (worker_turn demo_runtime (worker_turn demo_runtime two_requests))) =
       [Fulfilled None, Pending,
        Fulfilled (Some \<lparr>output_data = [10, 11], inferenceTimeMs = 0\<rparr>)]
   \<and> inferenceCallbacks (fst (worker_turn demo_runtime (worker_turn demo_runtime two_requests)))
       = [(1, InferCallback 1)]
   \<and> last (console (fst (worker_turn demo_runtime (worker_turn demo_runtime two_requests))))
       = Warn ''[TFLiteClient] Received result for unknown message ID:''"
  by (simp add: two_requests_def ready_client turn_defs)

text \<open>
  The same dispatch by shape loses a lone request whose output is the one-element
  array \<open>[1]\<close>: it is taken for the answer to \<open>init\<close>, finds no callback under key 0 and
  is dropped.
\<close>

lemma single_one_output_dropped:
  "promises (fst (worker_turn demo_runtime (client_call (infer [1] None) ready_page))) =
     [Fulfilled None, Pending]
   \<and> inferenceCallbacks (fst (worker_turn demo_runtime (client_call (infer [1] None) ready_page)))
       = [(1, InferCallback 1)]"
  by (simp add: ready_client turn_defs)

text \<open>
  The defect in general. As long as each stored callback has a promise of its own, a
  result message never reaches a request stored under a key that is neither 0 nor the
  current \<open>messageId\<close>: its callback stays in the map and its promise stays as it is.
  Since \<open>messageId\<close> only grows, a request overtaken by a later one is never fulfilled.
\<close>

lemma other_callback_other_promise:
  assumes "map_of cbs k = Some cb" "map_of cbs k' = Some cb'" "k \<noteq> k'"
      and "distinct (map (callback_promise \<circ> snd) cbs)"
  shows "callback_promise cb \<noteq> callback_promise cb'"
proof
  assume same: "callback_promise cb = callback_promise cb'"
  have mem: "(k, cb) \<in> set cbs" "(k', cb') \<in> set cbs"
    using assms(1,2) by (auto dest: map_of_SomeD)
  have inj: "inj_on (callback_promise \<circ> snd) (set cbs)"
    using assms(4) by (simp add: distinct_map)
  have "(k, cb) = (k', cb')"
    using inj_onD[OF inj _ mem] same by simp
  then show False using assms(3) by simp
qed

lemma stale_request_never_answered:
  fixes s out t
  defines "s' \<equiv> handleWorkerMessage (ResultMessage out t) s"
  assumes stored: "map_of (inferenceCallbacks s) k = Some cb"
      and stale: "k \<noteq> 0" "k \<noteq> messageId s"
      and own: "distinct (map (callback_promise \<circ> snd) (inferenceCallbacks s))"
      and made: "callback_promise cb < length (promises s)"
  shows "map_of (inferenceCallbacks s') k = Some cb
       \<and> promises s' ! callback_promise cb = promises s ! callback_promise cb"
proof -
  define mid where "mid = (if out = Some [1] then 0 else messageId s)"
  have diff: "k \<noteq> mid" using stale by (simp add: mid_def)
  show ?thesis
  proof (cases "map_of (inferenceCallbacks s) mid")
    case None
    then show ?thesis
      using stored by (simp add: s'_def handleWorkerMessage_def mid_def console_warn_def)
  next
    case (Some cb')
    have other: "callback_promise cb \<noteq> callback_promise cb'"
      using other_callback_other_promise[OF stored Some diff own] .
    have kept: "map_of (AList.delete mid (inferenceCallbacks s)) k = Some cb"
      using stored diff by (simp add: delete_conv')
    show ?thesis
      using Some other kept made stored
      by (auto simp: s'_def handleWorkerMessage_def mid_def[symmetric] Let_def console_log_def
          resolve_callback_nth split: option.splits)
  qed
qed

section \<open>Properties of batch inference\<close>

lemma loadModel_success:
  "loadModel tf mi = (Inr m, mi') \<Longrightarrow> tf_window_defined tf \<and> mi' = Some m"
  by (auto simp: loadModel_def split: if_splits option.splits sum.splits)

lemma runInference_keeps_model: "snd (runInference tf u options (Some m)) = Some m"
  by (auto simp: runInference_def loadModel_def split: sum.splits option.splits)

lemma batch_loop_map:
  "batch_loop tf urls options (Some m) acc = (acc @ map (batch_item tf options m) urls, Some m)"
proof (induction urls arbitrary: acc)
  case Nil
  then show ?case by simp
next
  case (Cons u urls)
  obtain r mi where ri: "runInference tf u options (Some m) = (r, mi)"
    by (cases "runInference tf u options (Some m)")
  have mi: "mi = Some m" using runInference_keeps_model[of tf u options m] ri by simp
  show ?case
    by (cases r) (simp_all add: ri mi Cons.IH batch_item_def)
qed

text \<open>
  The batch of lib/tflite/runInference: once the model has loaded, it returns one result
  for each image, in order, the failed result exactly where \<open>runInference\<close> throws.
\<close>

lemma runBatchInference_partial_failure:
  assumes "loadModel tf mi = (Inr m, mi')"
  shows "runBatchInference tf urls options mi =
           (Inr (map (batch_item tf options m) urls), Some m)"
  using assms loadModel_success[OF assms]
  by (simp add: runBatchInference_def batch_loop_map)

lemma Promise_all_rejects: "\<exists>r \<in> set rs. isl r \<Longrightarrow> isl (Promise_all rs)"
  by (induction rs rule: Promise_all.induct) (auto split: sum.splits)

text \<open>The batch of lib/tflite/index: one image that fails rejects the whole batch.\<close>

lemma runBatchInference_api_all_or_nothing:
  "isl (runInference_api env u) \<Longrightarrow> u \<in> set urls \<Longrightarrow> isl (runBatchInference_api env urls)"
  by (rule Promise_all_rejects[of "map (\<lambda>url. runInference_api env url) urls",
        folded runBatchInference_api_def]) auto

text \<open>
  Claim C5 fails on the batch of lib/tflite/index. Of three images the second is
  refused by the backend with status 400: the batch rejects with that error and returns
  no result, also none for the first image, which alone succeeds. The batch of
  lib/tflite/runInference, on three images of which the second cannot be decoded,
  returns three results, the second one the failed result.
\<close>

theorem runBatchInference_api_rejects_batch:
  "runBatchInference_api demo_api [''data:a'', ''data:bad'', ''data:c''] =
      Inl (Error ''Backend inference failed: 400'')
   \<and> runInference_api demo_api ''data:a'' =
       Inr \<lparr>api_predictions = [1 / 4, 3 / 4], api_topClass = 1,
            api_confidence = Some (3 / 4), api_inferenceTime = 12\<rparr>
   \<and> fst (runBatchInference demo_tf [''data:a'', ''data:bad'', ''data:c''] () None) =
      Inr [\<lparr>tf_predictions = [1 / 4, 3 / 4], tf_inferenceTimeMs = 12, modelLoaded = True\<rparr>,
           \<lparr>tf_predictions = [], tf_inferenceTimeMs = 0, modelLoaded = False\<rparr>,
           \<lparr>tf_predictions = [1 / 4, 3 / 4], tf_inferenceTimeMs = 12, modelLoaded = True\<rparr>]"
  by (simp add: runBatchInference_api_def runInference_api_def demo_api_def show_nat.simps
      Math_round_def Math_max_def or_else_def runBatchInference_def loadModel_def
      initializeTFJS_def demo_tf_def runInference_def preprocessFromDataUrl_def
      dataUrlToImageData_def failed_result_def Let_def)

section \<open>Properties of the model loader\<close>

lemma loadModel_call_in_flight:
  "tf_window_defined tf \<Longrightarrow> modelInstance ld = None \<Longrightarrow> isLoading ld \<Longrightarrow>
     loadPromise ld = Some p \<Longrightarrow> loadModel_call tf ld = (Inr p, ld)"
  by (simp add: loadModel_call_def)

lemma loadModel_calls_in_flight:
  "tf_window_defined tf \<Longrightarrow> modelInstance ld = None \<Longrightarrow> isLoading ld \<Longrightarrow>
     loadPromise ld = Some p \<Longrightarrow> loadModel_calls tf n ld = (replicate n (Inr p), ld)"
  by (induction n) (simp_all add: loadModel_call_in_flight)

text \<open>
  The loader coalesces as the channel does: with no model cached and no load in
  flight, any number of \<open>loadModel\<close> calls in a row start one load and all return its
  promise.
\<close>

lemma loadModel_coalescing:
  fixes tf :: "('m, 't, 'c) tfjs" and ld :: "'m loader" and n :: nat
  defines "p \<equiv> length (load_promises ld)"
  defines "ld1 \<equiv> ld\<lparr>isLoading := True, load_promises := load_promises ld @ [Loading],
                     loadPromise := Some p\<rparr>"
  assumes "tf_window_defined tf" "modelInstance ld = None" "\<not> isLoading ld"
  shows "loadModel_calls tf (Suc n) ld = (replicate (Suc n) (Inr p), ld1)"
proof -
  have first: "loadModel_call tf ld = (Inr p, ld1)"
    using assms(3-5) by (simp add: loadModel_call_def p_def ld1_def split: option.splits)
  have rest: "loadModel_calls tf n ld1 = (replicate n (Inr p), ld1)"
    using assms(3,4) by (intro loadModel_calls_in_flight) (simp_all add: ld1_def)
  show ?thesis by (simp add: first rest)
qed

text \<open>
  Unlike the channel, the loader forgets a finished load, failed or not: the \<^verbatim>\<open>finally\<close>
  block resets \<open>isLoading\<close> and \<open>loadPromise\<close>, so a call after a failure starts a new load.
\<close>

lemma loadModel_settles_resets:
  "\<not> isLoading (loadModel_settles tf p ld) \<and> loadPromise (loadModel_settles tf p ld) = None"
  by (simp add: loadModel_settles_def Let_def split: sum.splits)

text \<open>
  Awaited with nothing in between, a call and its load give what \<open>loadModel\<close> of the
  browser pipeline above gives.
\<close>

lemma loadModel_awaited_eq:
  assumes idle: "\<not> isLoading ld"
  shows "fst (loadModel_awaited tf ld) = fst (loadModel tf (modelInstance ld))
       \<and> modelInstance (snd (loadModel_awaited tf ld)) = snd (loadModel tf (modelInstance ld))
       \<and> \<not> isLoading (snd (loadModel_awaited tf ld))"
  using idle
  by (auto simp: loadModel_awaited_def loadModel_call_def loadModel_settles_def loadModel_def
      initializeTFJS_def Let_def nth_append
      split: option.splits sum.splits if_splits load_state.splits)


end
